theory Spec2Isabelle
  imports Main "HOL-Library.Word"
begin

section \<open>Python values, exceptions and library functions\<close>

text \<open>
  The handler of \<^verbatim>\<open>src/lambda_function.py\<close> works on JSON-shaped Python values: the
  Lambda event is a dict, the request body is whatever \<^verbatim>\<open>json.loads\<close> returns.
  A Python \<^verbatim>\<open>str\<close> is a \<open>string\<close>; a character is read as the code point of the
  same number, so the strings of the model are those with code points below 256.
  A dict is an association list looked up from the front.
\<close>

datatype pyfloat = FFinite int int | FInf | FNegInf | FNaN

datatype pyval =
    PNone
  | PBool bool
  | PInt int
  | PFloat pyfloat
  | PStr string
  | PList "pyval list"
  | PDict "(string \<times> pyval) list"

text \<open>Truth value testing, as \<^verbatim>\<open>not research_topic\<close> applies it.\<close>

fun truthy :: "pyval \<Rightarrow> bool" where
  "truthy PNone = False"
| "truthy (PBool b) = b"
| "truthy (PInt i) = (i \<noteq> 0)"
| "truthy (PFloat f) = (case f of FFinite m e \<Rightarrow> m \<noteq> 0 | _ \<Rightarrow> True)"
| "truthy (PStr s) = (s \<noteq> [])"
| "truthy (PList xs) = (xs \<noteq> [])"
| "truthy (PDict d) = (d \<noteq> [])"

fun type_name :: "pyval \<Rightarrow> string" where
  "type_name PNone = ''NoneType''"
| "type_name (PBool b) = ''bool''"
| "type_name (PInt i) = ''int''"
| "type_name (PFloat f) = ''float''"
| "type_name (PStr s) = ''str''"
| "type_name (PList xs) = ''list''"
| "type_name (PDict d) = ''dict''"

text \<open>\<^verbatim>\<open>d.get(k, default)\<close> on a dict.\<close>

definition dict_get :: "(string \<times> pyval) list \<Rightarrow> string \<Rightarrow> pyval \<Rightarrow> pyval" where
  "dict_get d k dflt = (case map_of d k of None \<Rightarrow> dflt | Some v \<Rightarrow> v)"

text \<open>
  Exceptions carry their class and message. Every exception of the model is an instance
  of \<^verbatim>\<open>Exception\<close>, so the clause \<^verbatim>\<open>except Exception\<close> catches all of them;
  \<^verbatim>\<open>SystemExit\<close>, \<^verbatim>\<open>KeyboardInterrupt\<close> and the end of the process are not
  exceptions of the model.
\<close>

datatype exn_class = JSONDecodeError | TypeError | AttributeError | OtherException string

datatype exn = Exn exn_class string

fun class_of :: "exn \<Rightarrow> exn_class" where
  "class_of (Exn c m) = c"

text \<open>
  Library functions that the repository calls and does not define: \<^verbatim>\<open>json.loads\<close> on a
  \<^verbatim>\<open>str\<close>, the formatting of a value that is not a \<^verbatim>\<open>str\<close> inside an f-string, and
  \<^verbatim>\<open>traceback.format_exc()\<close> for the exception being handled.
\<close>

record lib =
  json_loads :: "string \<Rightarrow> exn + pyval"
  py_str :: "pyval \<Rightarrow> string"
  format_exc :: "exn \<Rightarrow> string"

text \<open>\<^verbatim>\<open>json.loads(v)\<close>: a value that is not a \<^verbatim>\<open>str\<close> raises \<^verbatim>\<open>TypeError\<close>.\<close>

definition py_json_loads :: "lib \<Rightarrow> pyval \<Rightarrow> exn + pyval" where
  "py_json_loads l v =
     (case v of
        PStr s \<Rightarrow> json_loads l s
      | _ \<Rightarrow> Inl (Exn TypeError
                (''the JSON object must be str, bytes or bytearray, not '' @ type_name v)))"

text \<open>\<^verbatim>\<open>body.get('topic')\<close>: only a dict has the method.\<close>

definition py_get :: "pyval \<Rightarrow> string \<Rightarrow> exn + pyval" where
  "py_get v k =
     (case v of
        PDict d \<Rightarrow> Inr (dict_get d k PNone)
      | _ \<Rightarrow> Inl (Exn AttributeError
                ([CHR 0x27] @ type_name v @ [CHR 0x27] @ '' object has no attribute ''
                  @ [CHR 0x27] @ ''get'' @ [CHR 0x27])))"

definition format_value :: "lib \<Rightarrow> pyval \<Rightarrow> string" where
  "format_value l v = (case v of PStr s \<Rightarrow> s | _ \<Rightarrow> py_str l v)"

subsection \<open>json.dumps on a dict of strings\<close>

text \<open>
  Every \<^verbatim>\<open>json.dumps\<close> call that builds a response passes a dict whose keys and values
  are strings. The default separators and \<^verbatim>\<open>ensure_ascii\<close> apply.
\<close>

definition hex_digit :: "nat \<Rightarrow> char" where
  "hex_digit n = (if n < 10 then char_of (48 + n) else char_of (87 + n))"

definition json_escape :: "char \<Rightarrow> string" where
  "json_escape c =
     (let n = (of_char c :: nat) in
      if n = 0x22 then [CHR 0x5C, CHR 0x22]
      else if n = 0x5C then [CHR 0x5C, CHR 0x5C]
      else if n = 0x0A then [CHR 0x5C, CHR ''n'']
      else if n = 0x0D then [CHR 0x5C, CHR ''r'']
      else if n = 0x09 then [CHR 0x5C, CHR ''t'']
      else if n = 0x08 then [CHR 0x5C, CHR ''b'']
      else if n = 0x0C then [CHR 0x5C, CHR ''f'']
      else if n < 0x20 \<or> 0x7E < n
        then [CHR 0x5C, CHR ''u'', CHR ''0'', CHR ''0'', hex_digit (n div 16), hex_digit (n mod 16)]
      else [c])"

definition json_string :: "string \<Rightarrow> string" where
  "json_string s = [CHR 0x22] @ concat (map json_escape s) @ [CHR 0x22]"

fun join_items :: "string list \<Rightarrow> string" where
  "join_items [] = []"
| "join_items [x] = x"
| "join_items (x # y # ys) = x @ '', '' @ join_items (y # ys)"

definition json_dumps :: "(string \<times> string) list \<Rightarrow> string" where
  "json_dumps d =
     ''{'' @ join_items (map (\<lambda>(k, v). json_string k @ '': '' @ json_string v) d) @ ''}''"

subsection \<open>str.encode('utf-8') and datetime.isoformat()\<close>

definition utf8_char :: "char \<Rightarrow> 8 word list" where
  "utf8_char c =
     (let n = (of_char c :: nat) in
      if n < 128 then [of_nat n] else [of_nat (192 + n div 64), of_nat (128 + n mod 64)])"

definition encode_utf8 :: "string \<Rightarrow> 8 word list" where
  "encode_utf8 s = concat (map utf8_char s)"

record datetime =
  year :: nat
  month :: nat
  day :: nat
  hour :: nat
  minute :: nat
  second :: nat
  microsecond :: nat

fun zero_pad :: "nat \<Rightarrow> nat \<Rightarrow> string" where
  "zero_pad 0 n = []"
| "zero_pad (Suc w) n = zero_pad w (n div 10) @ [char_of (48 + n mod 10)]"

definition isoformat :: "datetime \<Rightarrow> string" where
  "isoformat d =
     zero_pad 4 (year d) @ ''-'' @ zero_pad 2 (month d) @ ''-'' @ zero_pad 2 (day d) @ ''T''
       @ zero_pad 2 (hour d) @ '':'' @ zero_pad 2 (minute d) @ '':'' @ zero_pad 2 (second d)
       @ (if microsecond d = 0 then [] else ''.'' @ zero_pad 6 (microsecond d))"

section \<open>Module state and the outside world\<close>

text \<open>
  Lines 14 to 17 run once, when the module is imported: each of the four names is bound to
  \<^verbatim>\<open>os.environ.get(...)\<close>, which is \<^verbatim>\<open>None\<close> for a variable that is not set.
\<close>

type_synonym environ = "string \<rightharpoonup> string"

record globals =
  S3_BUCKET_NAME :: "string option"
  DYNAMODB_TABLE_NAME :: "string option"
  GOOGLE_API_KEY :: "string option"
  SERPAPI_API_KEY :: "string option"

definition load_module :: "environ \<Rightarrow> globals" where
  "load_module env =
     \<lparr>S3_BUCKET_NAME = env ''S3_BUCKET_NAME'',
      DYNAMODB_TABLE_NAME = env ''DYNAMODB_TABLE_NAME'',
      GOOGLE_API_KEY = env ''GOOGLE_API_KEY'',
      SERPAPI_API_KEY = env ''SERPAPI_API_KEY''\<rparr>"

text \<open>\<^verbatim>\<open>not X\<close> for a value that is \<^verbatim>\<open>None\<close> or a \<^verbatim>\<open>str\<close>.\<close>

definition not_set :: "string option \<Rightarrow> bool" where
  "not_set v = (case v of None \<Rightarrow> True | Some s \<Rightarrow> s = [])"

text \<open>
  The calls that leave the process, with their arguments: the three constructors of the
  agent (the \<^verbatim>\<open>Tool\<close> list is an argument of \<^verbatim>\<open>initialize_agent\<close>),
  \<^verbatim>\<open>agent.run\<close>, \<^verbatim>\<open>s3_client.put_object\<close> and \<^verbatim>\<open>table.put_item\<close>.
  \<^verbatim>\<open>dynamodb.Table(name)\<close> only builds a local handle for the table of that name.
  \<^verbatim>\<open>print\<close> writes to the log stream and is left out.
\<close>

record put_object_req =
  Bucket :: string
  Key :: string
  Body :: "8 word list"
  ContentType :: string

type_synonym item = "(string \<times> pyval) list"

datatype call =
    NewLLM string string
  | NewSearch
  | InitAgent "(string \<times> string) list" string bool
  | AgentRun string
  | PutObject put_object_req
  | PutItem string item

text \<open>
  The world answers a call by returning (\<open>None\<close>) or by raising. Within one invocation no
  two calls have the same arguments, so a function of the call describes every way the
  services can behave during it. A call that raises has not written anything.
  \<open>agent_report\<close> is the text \<^verbatim>\<open>agent.run\<close> returns when it returns, \<open>uuid4\<close> the
  string of the identifier drawn for this invocation, \<open>utcnow\<close> the clock at its
  successive readings.
\<close>

record ext =
  perform :: "call \<Rightarrow> exn option"
  agent_report :: "string \<Rightarrow> string"
  uuid4 :: string
  utcnow :: "nat \<Rightarrow> datetime"

record st =
  calls :: "(call \<times> exn option) list"
  reads :: nat

definition start :: st where
  "start = \<lparr>calls = [], reads = 0\<rparr>"

definition invoke :: "ext \<Rightarrow> call \<Rightarrow> st \<Rightarrow> (exn + unit) \<times> st" where
  "invoke x c s =
     ((case perform x c of None \<Rightarrow> Inr () | Some e \<Rightarrow> Inl e),
      s\<lparr>calls := calls s @ [(c, perform x c)]\<rparr>)"

definition utcnow_isoformat :: "ext \<Rightarrow> st \<Rightarrow> (exn + string) \<times> st" where
  "utcnow_isoformat x s = (Inr (isoformat (utcnow x (reads s))), s\<lparr>reads := Suc (reads s)\<rparr>)"

definition agent_run :: "ext \<Rightarrow> string \<Rightarrow> st \<Rightarrow> (exn + string) \<times> st" where
  "agent_run x p s =
     (case invoke x (AgentRun p) s of
        (Inl e, s') \<Rightarrow> (Inl e, s')
      | (Inr u, s') \<Rightarrow> (Inr (agent_report x p), s'))"

text \<open>Sequencing: a statement that raises skips the rest of the block.\<close>

definition bind_exn ::
  "(st \<Rightarrow> (exn + 'a) \<times> st) \<Rightarrow> ('a \<Rightarrow> st \<Rightarrow> (exn + 'b) \<times> st) \<Rightarrow> st \<Rightarrow> (exn + 'b) \<times> st" where
  "bind_exn m f s = (case m s of (Inl e, s') \<Rightarrow> (Inl e, s') | (Inr v, s') \<Rightarrow> f v s')"

definition return_exn :: "'a \<Rightarrow> st \<Rightarrow> (exn + 'a) \<times> st" where
  "return_exn v s = (Inr v, s)"

text \<open>What was written: the calls that returned.\<close>

fun objects_written :: "(call \<times> exn option) list \<Rightarrow> put_object_req list" where
  "objects_written [] = []"
| "objects_written ((PutObject r, None) # cs) = r # objects_written cs"
| "objects_written (c # cs) = objects_written cs"

fun items_written :: "(call \<times> exn option) list \<Rightarrow> (string \<times> item) list" where
  "items_written [] = []"
| "items_written ((PutItem t i, None) # cs) = (t, i) # items_written cs"
| "items_written (c # cs) = items_written cs"

fun items_attempted :: "(call \<times> exn option) list \<Rightarrow> (string \<times> item) list" where
  "items_attempted [] = []"
| "items_attempted ((PutItem t i, r) # cs) = (t, i) # items_attempted cs"
| "items_attempted (c # cs) = items_attempted cs"

section \<open>The handler\<close>

record response =
  statusCode :: int
  body :: string

definition error_response :: "int \<Rightarrow> string \<Rightarrow> response" where
  "error_response code msg = \<lparr>statusCode = code, body = json_dumps [(''error'', msg)]\<rparr>"

text \<open>
  Lines 32 to 44: the first \<^verbatim>\<open>try\<close> block. The result is an exception that leaves the
  handler, a response returned at once, or the topic.
\<close>

definition parse_request :: "lib \<Rightarrow> (string \<times> pyval) list \<Rightarrow> exn + (response + pyval)" where
  "parse_request l event =
     (case (case py_json_loads l (dict_get event ''body'' (PStr ''{}'')) of
              Inl e \<Rightarrow> Inl e
            | Inr parsed \<Rightarrow>
                (case py_get parsed ''topic'' of
                   Inl e \<Rightarrow> Inl e
                 | Inr research_topic \<Rightarrow>
                     if \<not> truthy research_topic
                     then Inr (Inl (error_response 400
                            (''Missing '' @ [CHR 0x22] @ ''topic'' @ [CHR 0x22] @ '' in request body.'')))
                     else Inr (Inr research_topic))) of
        Inl e \<Rightarrow>
          if class_of e = JSONDecodeError
          then Inr (Inl (error_response 400 ''Invalid JSON in request body.''))
          else Inl e
      | Inr r \<Rightarrow> Inr r)"

text \<open>Lines 50 to 78: the arguments of the calls that build and run the agent.\<close>

definition llm_call :: call where
  "llm_call = NewLLM ''gemini-1.5-flash'' ''0.7''"

definition agent_call :: call where
  "agent_call =
     InitAgent
       [(''WebSearch'',
         ''Useful for when you need to answer questions about current events or find information on the internet.'')]
       ''ZERO_SHOT_REACT_DESCRIPTION'' True"

definition prompt :: "lib \<Rightarrow> pyval \<Rightarrow> string" where
  "prompt l research_topic =
     [CHR 0x0A] @
     ''        You are a diligent AI Research Assistant. Your task is to investigate the following topic: ''
       @ [CHR 0x22] @ format_value l research_topic @ [CHR 0x22] @ ''.'' @ [CHR 0x0A] @
     ''        '' @ [CHR 0x0A] @
     ''        Follow these steps:'' @ [CHR 0x0A] @
     ''        1. Use the WebSearch tool to find relevant information.'' @ [CHR 0x0A] @
     ''        2. Synthesize the information you find into a concise, well-structured report.'' @ [CHR 0x0A] @
     ''        3. The final report should be your final answer. Do not include your thought process, just the report itself.'' @ [CHR 0x0A] @
     ''        '' @ [CHR 0x0A] @
     ''        Begin your work now.'' @ [CHR 0x0A] @
     ''        ''"

text \<open>Lines 80 to 98 and 117 to 126: the object and the two kinds of record.\<close>

definition s3_file_key :: "string \<Rightarrow> string" where
  "s3_file_key task_id = ''reports/'' @ task_id @ ''.txt''"

definition report_object :: "globals \<Rightarrow> string \<Rightarrow> string \<Rightarrow> put_object_req" where
  "report_object g task_id final_report =
     \<lparr>Bucket = the (S3_BUCKET_NAME g),
      Key = s3_file_key task_id,
      Body = encode_utf8 final_report,
      ContentType = ''text/plain''\<rparr>"

definition completed_item :: "string \<Rightarrow> pyval \<Rightarrow> string \<Rightarrow> item" where
  "completed_item task_id research_topic completed_at =
     [(''task_id'', PStr task_id),
      (''research_topic'', research_topic),
      (''s3_report_key'', PStr (s3_file_key task_id)),
      (''status'', PStr ''COMPLETED''),
      (''completed_at'', PStr completed_at)]"

definition failed_item :: "string \<Rightarrow> pyval \<Rightarrow> string \<Rightarrow> string \<Rightarrow> item" where
  "failed_item task_id research_topic error_trace completed_at =
     [(''task_id'', PStr task_id),
      (''research_topic'', research_topic),
      (''status'', PStr ''FAILED''),
      (''error_message'', PStr error_trace),
      (''completed_at'', PStr completed_at)]"

definition success_response :: "globals \<Rightarrow> string \<Rightarrow> response" where
  "success_response g task_id =
     \<lparr>statusCode = 200,
      body = json_dumps
        [(''message'', ''Research task completed successfully!''),
         (''task_id'', task_id),
         (''s3_bucket'', the (S3_BUCKET_NAME g)),
         (''s3_key'', s3_file_key task_id)]\<rparr>"

definition internal_error_response :: response where
  "internal_error_response =
     error_response 500 ''An internal server error occurred. Check CloudWatch logs for details.''"

text \<open>Lines 50 to 109: the body of the second \<^verbatim>\<open>try\<close> block.\<close>

definition try_block :: "lib \<Rightarrow> ext \<Rightarrow> globals \<Rightarrow> string \<Rightarrow> pyval \<Rightarrow> st \<Rightarrow> (exn + response) \<times> st" where
  "try_block l x g task_id research_topic =
     bind_exn (invoke x llm_call) (\<lambda>llm.
     bind_exn (invoke x NewSearch) (\<lambda>search.
     bind_exn (invoke x agent_call) (\<lambda>agent.
     bind_exn (agent_run x (prompt l research_topic)) (\<lambda>final_report.
     bind_exn (invoke x (PutObject (report_object g task_id final_report))) (\<lambda>u.
     bind_exn (utcnow_isoformat x) (\<lambda>completed_at.
     bind_exn (invoke x (PutItem (the (DYNAMODB_TABLE_NAME g))
                 (completed_item task_id research_topic completed_at))) (\<lambda>u.
     return_exn (success_response g task_id))))))))"

text \<open>Lines 111 to 130: the \<^verbatim>\<open>except Exception\<close> clause.\<close>

definition except_block :: "lib \<Rightarrow> ext \<Rightarrow> globals \<Rightarrow> string \<Rightarrow> pyval \<Rightarrow> exn \<Rightarrow> st \<Rightarrow> (exn + response) \<times> st" where
  "except_block l x g task_id research_topic e =
     (let error_trace = format_exc l e in
      bind_exn (utcnow_isoformat x) (\<lambda>completed_at.
      bind_exn (invoke x (PutItem (the (DYNAMODB_TABLE_NAME g))
                 (failed_item task_id research_topic error_trace completed_at))) (\<lambda>u.
      return_exn internal_error_response)))"

text \<open>
  The handler. The result is the response returned, or the exception that leaves the
  handler, together with the calls made.
\<close>

definition lambda_handler :: "lib \<Rightarrow> ext \<Rightarrow> globals \<Rightarrow> (string \<times> pyval) list \<Rightarrow> st \<Rightarrow> (exn + response) \<times> st" where
  "lambda_handler l x g event s =
     (if not_set (GOOGLE_API_KEY g)
      then (Inr (error_response 500 ''Server configuration error: Missing Google API Key.''), s)
      else if not_set (SERPAPI_API_KEY g)
      then (Inr (error_response 500 ''Server configuration error: Missing SerpApi API Key.''), s)
      else if not_set (S3_BUCKET_NAME g) \<or> not_set (DYNAMODB_TABLE_NAME g)
      then (Inr (error_response 500 ''Server configuration error: Missing AWS resource names.''), s)
      else
        (case parse_request l event of
           Inl e \<Rightarrow> (Inl e, s)
         | Inr (Inl resp) \<Rightarrow> (Inr resp, s)
         | Inr (Inr research_topic) \<Rightarrow>
             (let task_id = uuid4 x in
              case try_block l x g task_id research_topic s of
                (Inr resp, s') \<Rightarrow> (Inr resp, s')
              | (Inl e, s') \<Rightarrow> except_block l x g task_id research_topic e s')))"

text \<open>
  Line 47 writes the task identifier and the topic to the log, after the identifier is drawn
  and before the second \<^verbatim>\<open>try\<close> block. \<^verbatim>\<open>print\<close> raises
  \<^verbatim>\<open>UnicodeEncodeError\<close> when stdout cannot encode the text, and the topic is whatever
  the request holds, so this write can raise, and no clause catches what it raises.
  \<open>lambda_handler\<close> above is the handler of the invocations in which the write returns;
  \<open>lambda_handler_logged\<close> adds the write, answered by \<open>out\<close>: \<open>None\<close> when the text
  is written, the exception otherwise. The other log writes are taken to return in both:
  their text is constant, or the ASCII output of \<^verbatim>\<open>json.dumps\<close> (line 19), or built
  from names the services have just accepted (lines 87 and 99) or from the exception being
  handled (lines 113 to 115).
\<close>

definition start_text :: "lib \<Rightarrow> string \<Rightarrow> pyval \<Rightarrow> string" where
  "start_text l task_id research_topic =
     ''Starting task '' @ task_id @ '' for topic: '' @ [CHR 0x27]
       @ format_value l research_topic @ [CHR 0x27]"

definition lambda_handler_logged ::
  "lib \<Rightarrow> (string \<Rightarrow> exn option) \<Rightarrow> ext \<Rightarrow> globals \<Rightarrow> (string \<times> pyval) list \<Rightarrow> st
     \<Rightarrow> (exn + response) \<times> st" where
  "lambda_handler_logged l out x g event s =
     (if not_set (GOOGLE_API_KEY g)
      then (Inr (error_response 500 ''Server configuration error: Missing Google API Key.''), s)
      else if not_set (SERPAPI_API_KEY g)
      then (Inr (error_response 500 ''Server configuration error: Missing SerpApi API Key.''), s)
      else if not_set (S3_BUCKET_NAME g) \<or> not_set (DYNAMODB_TABLE_NAME g)
      then (Inr (error_response 500 ''Server configuration error: Missing AWS resource names.''), s)
      else
        (case parse_request l event of
           Inl e \<Rightarrow> (Inl e, s)
         | Inr (Inl resp) \<Rightarrow> (Inr resp, s)
         | Inr (Inr research_topic) \<Rightarrow>
             (let task_id = uuid4 x in
              case out (start_text l task_id research_topic) of
                Some e \<Rightarrow> (Inl e, s)
              | None \<Rightarrow>
                  (case try_block l x g task_id research_topic s of
                     (Inr resp, s') \<Rightarrow> (Inr resp, s')
                   | (Inl e, s') \<Rightarrow> except_block l x g task_id research_topic e s'))))"

section \<open>The process around the handler\<close>

text \<open>
  A warm process: the environment as it is now, and the module globals bound when the
  module was imported. An invocation passes the globals to the handler; the handler itself
  never reads the environment. The libraries do: the constructors of lines 50 and 52 are
  given no key and look the keys up in \<^verbatim>\<open>os.environ\<close> when they are called. So the
  world an invocation meets is a function \<open>w\<close> of the environment at that time.
\<close>

record process =
  os_environ :: environ
  module_globals :: globals

definition import_module :: "environ \<Rightarrow> process" where
  "import_module env = \<lparr>os_environ = env, module_globals = load_module env\<rparr>"

definition handle ::
  "lib \<Rightarrow> (environ \<Rightarrow> ext) \<Rightarrow> process \<Rightarrow> (string \<times> pyval) list \<Rightarrow> (exn + response) \<times> st" where
  "handle l w p event = lambda_handler l (w (os_environ p)) (module_globals p) event start"

section \<open>Notions used to state the properties\<close>

definition config_ok :: "globals \<Rightarrow> bool" where
  "config_ok g =
     (\<not> not_set (GOOGLE_API_KEY g) \<and> \<not> not_set (SERPAPI_API_KEY g)
      \<and> \<not> not_set (S3_BUCKET_NAME g) \<and> \<not> not_set (DYNAMODB_TABLE_NAME g))"

text \<open>
  The steps of the specification's chain, as calls: agent construction, agent run,
  report-store write, COMPLETED registry write. \<open>run_steps\<close> makes them in order and
  stops after the first one that raises; \<open>raised\<close> is that exception.
\<close>

definition pipeline :: "lib \<Rightarrow> ext \<Rightarrow> globals \<Rightarrow> pyval \<Rightarrow> nat \<Rightarrow> call list" where
  "pipeline l x g research_topic n =
     [llm_call, NewSearch, agent_call, AgentRun (prompt l research_topic),
      PutObject (report_object g (uuid4 x) (agent_report x (prompt l research_topic))),
      PutItem (the (DYNAMODB_TABLE_NAME g))
        (completed_item (uuid4 x) research_topic (isoformat (utcnow x n)))]"

fun run_steps :: "ext \<Rightarrow> call list \<Rightarrow> (call \<times> exn option) list" where
  "run_steps x [] = []"
| "run_steps x (c # cs) =
     (case perform x c of None \<Rightarrow> (c, None) # run_steps x cs | Some e \<Rightarrow> [(c, Some e)])"

fun raised :: "(call \<times> exn option) list \<Rightarrow> exn option" where
  "raised [] = None"
| "raised ((c, None) # cs) = raised cs"
| "raised ((c, Some e) # cs) = Some e"

definition failure_write :: "lib \<Rightarrow> ext \<Rightarrow> globals \<Rightarrow> pyval \<Rightarrow> exn \<Rightarrow> nat \<Rightarrow> call" where
  "failure_write l x g research_topic e n =
     PutItem (the (DYNAMODB_TABLE_NAME g))
       (failed_item (uuid4 x) research_topic (format_exc l e) (isoformat (utcnow x n)))"

text \<open>\<open>occurs_in p s\<close>: the text \<open>p\<close> occurs in \<open>s\<close>.\<close>

fun occurs_in :: "string \<Rightarrow> string \<Rightarrow> bool" where
  "occurs_in p [] = (p = [])"
| "occurs_in p (c # cs) = (take (length p) (c # cs) = p \<or> occurs_in p cs)"

section \<open>Sample inputs\<close>

definition sample_lib :: lib where
  \<open>sample_lib =
     \<lparr>json_loads = (\<lambda>s.
        if s = ''{}'' then Inr (PDict [])
        else if s = ''{"topic": "coral bleaching"}''
          then Inr (PDict [(''topic'', PStr ''coral bleaching'')])
        else if s = ''{"topic": ""}'' then Inr (PDict [(''topic'', PStr [])])
        else Inl (Exn JSONDecodeError ''Expecting value: line 1 column 1 (char 0)'')),
      py_str = (\<lambda>v. type_name v),
      format_exc = (\<lambda>e. case e of Exn c m \<Rightarrow> ''Traceback (most recent call last): '' @ m)\<rparr>\<close>

definition sample_globals :: globals where
  "sample_globals =
     \<lparr>S3_BUCKET_NAME = Some ''research-reports'',
      DYNAMODB_TABLE_NAME = Some ''research-tasks'',
      GOOGLE_API_KEY = Some ''g-key'',
      SERPAPI_API_KEY = Some ''s-key''\<rparr>"

definition sample_environ :: environ where
  "sample_environ =
     map_of [(''S3_BUCKET_NAME'', ''research-reports''),
             (''DYNAMODB_TABLE_NAME'', ''research-tasks''),
             (''GOOGLE_API_KEY'', ''g-key''),
             (''SERPAPI_API_KEY'', ''s-key'')]"

definition sample_clock :: "nat \<Rightarrow> datetime" where
  "sample_clock n =
     \<lparr>year = 2024, month = 5, day = 17, hour = 9, minute = 3, second = 41 + n,
      microsecond = 1250\<rparr>"

definition service_error :: exn where
  "service_error = Exn (OtherException ''ClientError'') ''ServiceUnavailable''"

definition agent_error :: exn where
  "agent_error = Exn (OtherException ''ValueError'') ''Could not parse LLM output''"

text \<open>A world in which every call returns.\<close>

definition calm :: ext where
  "calm =
     \<lparr>perform = (\<lambda>c. None),
      agent_report = (\<lambda>p. ''Coral bleaching report...''),
      uuid4 = ''1b4e28ba-2fa1-41d2-883f-0016d3cca427'',
      utcnow = sample_clock\<rparr>"

text \<open>Worlds in which the object store, the table, or the agent fail.\<close>

definition s3_down :: ext where
  "s3_down = calm\<lparr>perform := (\<lambda>c. case c of PutObject r \<Rightarrow> Some service_error | _ \<Rightarrow> None)\<rparr>"

definition ddb_down :: ext where
  "ddb_down = calm\<lparr>perform := (\<lambda>c. case c of PutItem t i \<Rightarrow> Some service_error | _ \<Rightarrow> None)\<rparr>"

definition completed_write_fails :: ext where
  "completed_write_fails =
     calm\<lparr>perform := (\<lambda>c. case c of
        PutItem t i \<Rightarrow>
          (if map_of i ''status'' = Some (PStr ''COMPLETED'') then Some service_error else None)
      | _ \<Rightarrow> None)\<rparr>"

definition agent_fails :: ext where
  "agent_fails = calm\<lparr>perform := (\<lambda>c. case c of AgentRun p \<Rightarrow> Some agent_error | _ \<Rightarrow> None)\<rparr>"

definition agent_fails_ddb_down :: ext where
  "agent_fails_ddb_down =
     calm\<lparr>perform := (\<lambda>c. case c of
        AgentRun p \<Rightarrow> Some agent_error
      | PutItem t i \<Rightarrow> Some service_error
      | _ \<Rightarrow> None)\<rparr>"

definition sample_event :: "(string \<times> pyval) list" where
  \<open>sample_event = [(''httpMethod'', PStr ''POST''), (''body'', PStr ''{"topic": "coral bleaching"}'')]\<close>

definition event_without_body :: "(string \<times> pyval) list" where
  "event_without_body = [(''httpMethod'', PStr ''POST'')]"

definition event_null_body :: "(string \<times> pyval) list" where
  "event_null_body = [(''httpMethod'', PStr ''POST''), (''body'', PNone)]"

definition event_bad_json :: "(string \<times> pyval) list" where
  "event_bad_json = [(''httpMethod'', PStr ''POST''), (''body'', PStr ''{topic'')]"

definition event_empty_topic :: "(string \<times> pyval) list" where
  \<open>event_empty_topic = [(''httpMethod'', PStr ''POST''), (''body'', PStr ''{"topic": ""}'')]\<close>

text \<open>A library that also parses the bodies \<^verbatim>\<open>null\<close> and \<^verbatim>\<open>[1]\<close>.\<close>

definition parsing_lib :: lib where
  "parsing_lib =
     sample_lib\<lparr>json_loads := (\<lambda>s.
        if s = ''null'' then Inr PNone
        else if s = ''[1]'' then Inr (PList [PInt 1])
        else json_loads sample_lib s)\<rparr>"

definition event_json_null :: "(string \<times> pyval) list" where
  "event_json_null = [(''httpMethod'', PStr ''POST''), (''body'', PStr ''null'')]"

definition event_json_list :: "(string \<times> pyval) list" where
  "event_json_list = [(''httpMethod'', PStr ''POST''), (''body'', PStr ''[1]'')]"

text \<open>
  A request whose topic has a character beyond ASCII (code point 233), and a stdout that
  encodes ASCII only and one that encodes everything.
\<close>

definition accent_topic :: string where
  "accent_topic = ''caf'' @ [CHR 0xE9]"

definition accent_body :: string where
  \<open>accent_body = ''{"topic": "caf'' @ [CHR 0xE9] @ ''"}''\<close>

definition accent_lib :: lib where
  "accent_lib =
     sample_lib\<lparr>json_loads := (\<lambda>s.
        if s = accent_body then Inr (PDict [(''topic'', PStr accent_topic)])
        else json_loads sample_lib s)\<rparr>"

definition event_accent :: "(string \<times> pyval) list" where
  "event_accent = [(''httpMethod'', PStr ''POST''), (''body'', PStr accent_body)]"

definition ascii_stdout :: "string \<Rightarrow> exn option" where
  "ascii_stdout text =
     (if list_all (\<lambda>c. (of_char c :: nat) < 128) text then None
      else Some (Exn (OtherException ''UnicodeEncodeError'')
             ''codec can't encode character: ordinal not in range(128)''))"

definition wide_stdout :: "string \<Rightarrow> exn option" where
  "wide_stdout text = None"

text \<open>
  A world that depends on the environment at the time of the call: each constructor raises
  when its key is not set then.
\<close>

definition keyed_world :: "environ \<Rightarrow> ext" where
  "keyed_world env =
     calm\<lparr>perform := (\<lambda>c. case c of
        NewLLM m t \<Rightarrow>
          (if not_set (env ''GOOGLE_API_KEY'')
           then Some (Exn (OtherException ''ValidationError'') ''GOOGLE_API_KEY is not set'')
           else None)
      | NewSearch \<Rightarrow>
          (if not_set (env ''SERPAPI_API_KEY'')
           then Some (Exn (OtherException ''ValidationError'') ''SERPAPI_API_KEY is not set'')
           else None)
      | _ \<Rightarrow> None)\<rparr>"

section \<open>The structure of an invocation\<close>

lemma handler_config_ok:
  assumes "config_ok g"
  shows "lambda_handler l x g event s =
     (case parse_request l event of
        Inl e \<Rightarrow> (Inl e, s)
      | Inr (Inl resp) \<Rightarrow> (Inr resp, s)
      | Inr (Inr research_topic) \<Rightarrow>
          (case try_block l x g (uuid4 x) research_topic s of
             (Inr resp, s') \<Rightarrow> (Inr resp, s')
           | (Inl e, s') \<Rightarrow> except_block l x g (uuid4 x) research_topic e s'))"
  using assms by (simp add: lambda_handler_def config_ok_def Let_def split: sum.splits)

lemma try_block_steps:
  "try_block l x g (uuid4 x) research_topic s =
     (let tr = run_steps x (pipeline l x g research_topic (reads s)) in
      ((case raised tr of None \<Rightarrow> Inr (success_response g (uuid4 x)) | Some e \<Rightarrow> Inl e),
       s\<lparr>calls := calls s @ tr,
         reads := (if length tr = 6 then Suc (reads s) else reads s)\<rparr>))"
  by (simp add: try_block_def pipeline_def bind_exn_def invoke_def agent_run_def
      utcnow_isoformat_def return_exn_def Let_def split: option.splits)

lemma except_block_write:
  "except_block l x g (uuid4 x) research_topic e s =
     (let w = failure_write l x g research_topic e (reads s) in
      ((case perform x w of None \<Rightarrow> Inr internal_error_response | Some e' \<Rightarrow> Inl e'),
       s\<lparr>calls := calls s @ [(w, perform x w)], reads := Suc (reads s)\<rparr>))"
  by (simp add: except_block_def failure_write_def bind_exn_def invoke_def
      utcnow_isoformat_def return_exn_def Let_def split: option.splits)

lemma parse_request_topic:
  assumes "py_json_loads l (dict_get event ''body'' (PStr ''{}'')) = Inr (PDict d)"
    and "map_of d ''topic'' = Some research_topic"
    and "truthy research_topic"
  shows "parse_request l event = Inr (Inr research_topic)"
  using assms by (simp add: parse_request_def py_get_def dict_get_def)

lemma parse_request_status:
  "parse_request l event = Inr (Inl resp) \<Longrightarrow> statusCode resp = 400"
  by (auto simp add: parse_request_def error_response_def split: sum.splits if_splits)

section \<open>Configuration check\<close>

text \<open>
  C4. When one of the four configuration values is absent or empty the handler returns
  status 500 with a configuration-error body and makes no call: the body names the Google
  API key when that one is missing, the SerpApi key when the Google key is set and the
  SerpApi key is missing, and the AWS resource names when both keys are set and the bucket
  name or the table name is missing.
\<close>

theorem missing_configuration:
  "(not_set (GOOGLE_API_KEY g) \<longrightarrow>
      lambda_handler l x g event start =
        (Inr \<lparr>statusCode = 500,
              body = json_dumps [(''error'', ''Server configuration error: Missing Google API Key.'')]\<rparr>,
         \<lparr>calls = [], reads = 0\<rparr>))
   \<and> (\<not> not_set (GOOGLE_API_KEY g) \<and> not_set (SERPAPI_API_KEY g) \<longrightarrow>
      lambda_handler l x g event start =
        (Inr \<lparr>statusCode = 500,
              body = json_dumps [(''error'', ''Server configuration error: Missing SerpApi API Key.'')]\<rparr>,
         \<lparr>calls = [], reads = 0\<rparr>))
   \<and> (\<not> not_set (GOOGLE_API_KEY g) \<and> \<not> not_set (SERPAPI_API_KEY g)
        \<and> (not_set (S3_BUCKET_NAME g) \<or> not_set (DYNAMODB_TABLE_NAME g)) \<longrightarrow>
      lambda_handler l x g event start =
        (Inr \<lparr>statusCode = 500,
              body = json_dumps [(''error'', ''Server configuration error: Missing AWS resource names.'')]\<rparr>,
         \<lparr>calls = [], reads = 0\<rparr>))"
  by (simp add: lambda_handler_def error_response_def start_def)

theorem missing_configuration_witness:
  "lambda_handler sample_lib calm (sample_globals\<lparr>GOOGLE_API_KEY := None\<rparr>) sample_event start =
     (Inr \<lparr>statusCode = 500,
           body = json_dumps [(''error'', ''Server configuration error: Missing Google API Key.'')]\<rparr>,
      \<lparr>calls = [], reads = 0\<rparr>)
   \<and> lambda_handler sample_lib calm (sample_globals\<lparr>SERPAPI_API_KEY := Some []\<rparr>) sample_event start =
     (Inr \<lparr>statusCode = 500,
           body = json_dumps [(''error'', ''Server configuration error: Missing SerpApi API Key.'')]\<rparr>,
      \<lparr>calls = [], reads = 0\<rparr>)
   \<and> lambda_handler sample_lib calm (sample_globals\<lparr>S3_BUCKET_NAME := None\<rparr>) sample_event start =
     (Inr \<lparr>statusCode = 500,
           body = json_dumps [(''error'', ''Server configuration error: Missing AWS resource names.'')]\<rparr>,
      \<lparr>calls = [], reads = 0\<rparr>)
   \<and> lambda_handler sample_lib calm (sample_globals\<lparr>DYNAMODB_TABLE_NAME := Some []\<rparr>) sample_event start =
     (Inr \<lparr>statusCode = 500,
           body = json_dumps [(''error'', ''Server configuration error: Missing AWS resource names.'')]\<rparr>,
      \<lparr>calls = [], reads = 0\<rparr>)"
  using missing_configuration [of "sample_globals\<lparr>GOOGLE_API_KEY := None\<rparr>" sample_lib calm sample_event]
    missing_configuration [of "sample_globals\<lparr>SERPAPI_API_KEY := Some []\<rparr>" sample_lib calm sample_event]
    missing_configuration [of "sample_globals\<lparr>S3_BUCKET_NAME := None\<rparr>" sample_lib calm sample_event]
    missing_configuration [of "sample_globals\<lparr>DYNAMODB_TABLE_NAME := Some []\<rparr>" sample_lib calm sample_event]
  by (simp add: sample_globals_def not_set_def)

section \<open>Request validation\<close>

text \<open>
  C3 (amended). Once the configuration check has passed: a request body on which
  \<^verbatim>\<open>json.loads\<close> raises \<^verbatim>\<open>JSONDecodeError\<close> gives status 400 with the body
  \<^verbatim>\<open>{"error": "Invalid JSON in request body."}\<close>; a body that parses to an object
  without the key \<^verbatim>\<open>topic\<close>, or with a \<^verbatim>\<open>topic\<close> that is empty (any value Python
  counts as false), gives status 400 with the body
  \<^verbatim>\<open>{"error": "Missing \"topic\" in request body."}\<close>. A body that parses to a value
  that is not an object (\<^verbatim>\<open>null\<close>, a list, a string, a number) gets no response:
  \<^verbatim>\<open>body.get\<close> raises \<^verbatim>\<open>AttributeError\<close>, which leaves the handler; so does any
  exception of \<^verbatim>\<open>json.loads\<close> other than \<^verbatim>\<open>JSONDecodeError\<close>. In all four cases
  no call is made, so nothing is written to the object store or to the table.
\<close>

theorem invalid_request:
  "(config_ok g \<and> py_json_loads l (dict_get event ''body'' (PStr ''{}'')) = Inl e
      \<and> class_of e = JSONDecodeError \<longrightarrow>
      lambda_handler l x g event start =
        (Inr \<lparr>statusCode = 400, body = json_dumps [(''error'', ''Invalid JSON in request body.'')]\<rparr>,
         \<lparr>calls = [], reads = 0\<rparr>))
   \<and> (config_ok g \<and> py_json_loads l (dict_get event ''body'' (PStr ''{}'')) = Inr (PDict d)
      \<and> (map_of d ''topic'' = None \<or> (\<exists>t. map_of d ''topic'' = Some t \<and> \<not> truthy t)) \<longrightarrow>
      lambda_handler l x g event start =
        (Inr \<lparr>statusCode = 400,
              body = json_dumps
                [(''error'', ''Missing '' @ [CHR 0x22] @ ''topic'' @ [CHR 0x22] @ '' in request body.'')]\<rparr>,
         \<lparr>calls = [], reads = 0\<rparr>))
   \<and> (config_ok g \<and> py_json_loads l (dict_get event ''body'' (PStr ''{}'')) = Inr parsed
      \<and> (\<forall>d'. parsed \<noteq> PDict d') \<longrightarrow>
      lambda_handler l x g event start =
        (Inl (Exn AttributeError
           ([CHR 0x27] @ type_name parsed @ [CHR 0x27] @ '' object has no attribute ''
              @ [CHR 0x27] @ ''get'' @ [CHR 0x27])),
         \<lparr>calls = [], reads = 0\<rparr>))
   \<and> (config_ok g \<and> py_json_loads l (dict_get event ''body'' (PStr ''{}'')) = Inl e
      \<and> class_of e \<noteq> JSONDecodeError \<longrightarrow>
      lambda_handler l x g event start = (Inl e, \<lparr>calls = [], reads = 0\<rparr>))"
proof (intro conjI impI)
  assume "config_ok g \<and> py_json_loads l (dict_get event ''body'' (PStr ''{}'')) = Inl e
      \<and> class_of e = JSONDecodeError"
  then show "lambda_handler l x g event start =
        (Inr \<lparr>statusCode = 400, body = json_dumps [(''error'', ''Invalid JSON in request body.'')]\<rparr>,
         \<lparr>calls = [], reads = 0\<rparr>)"
    by (simp add: handler_config_ok parse_request_def error_response_def start_def)
next
  assume "config_ok g \<and> py_json_loads l (dict_get event ''body'' (PStr ''{}'')) = Inr (PDict d)
      \<and> (map_of d ''topic'' = None \<or> (\<exists>t. map_of d ''topic'' = Some t \<and> \<not> truthy t))"
  then show "lambda_handler l x g event start =
        (Inr \<lparr>statusCode = 400,
              body = json_dumps
                [(''error'', ''Missing '' @ [CHR 0x22] @ ''topic'' @ [CHR 0x22] @ '' in request body.'')]\<rparr>,
         \<lparr>calls = [], reads = 0\<rparr>)"
    by (auto simp add: handler_config_ok parse_request_def py_get_def dict_get_def
        error_response_def start_def)
next
  assume a: "config_ok g \<and> py_json_loads l (dict_get event ''body'' (PStr ''{}'')) = Inr parsed
      \<and> (\<forall>d'. parsed \<noteq> PDict d')"
  then show "lambda_handler l x g event start =
        (Inl (Exn AttributeError
           ([CHR 0x27] @ type_name parsed @ [CHR 0x27] @ '' object has no attribute ''
              @ [CHR 0x27] @ ''get'' @ [CHR 0x27])),
         \<lparr>calls = [], reads = 0\<rparr>)"
    by (cases parsed)
       (simp_all add: handler_config_ok parse_request_def py_get_def start_def)
next
  assume "config_ok g \<and> py_json_loads l (dict_get event ''body'' (PStr ''{}'')) = Inl e
      \<and> class_of e \<noteq> JSONDecodeError"
  then show "lambda_handler l x g event start = (Inl e, \<lparr>calls = [], reads = 0\<rparr>)"
    by (simp add: handler_config_ok parse_request_def start_def)
qed

lemma sample_config_ok: "config_ok sample_globals"
  by (simp add: config_ok_def sample_globals_def not_set_def)

theorem invalid_request_witness:
  "lambda_handler sample_lib calm sample_globals event_bad_json start =
     (Inr \<lparr>statusCode = 400, body = json_dumps [(''error'', ''Invalid JSON in request body.'')]\<rparr>,
      \<lparr>calls = [], reads = 0\<rparr>)
   \<and> lambda_handler sample_lib calm sample_globals event_empty_topic start =
     (Inr \<lparr>statusCode = 400,
           body = json_dumps
             [(''error'', ''Missing '' @ [CHR 0x22] @ ''topic'' @ [CHR 0x22] @ '' in request body.'')]\<rparr>,
      \<lparr>calls = [], reads = 0\<rparr>)
   \<and> lambda_handler parsing_lib calm sample_globals event_json_list start =
     (Inl (Exn AttributeError
        ([CHR 0x27] @ ''list'' @ [CHR 0x27] @ '' object has no attribute ''
           @ [CHR 0x27] @ ''get'' @ [CHR 0x27])),
      \<lparr>calls = [], reads = 0\<rparr>)
   \<and> lambda_handler sample_lib calm sample_globals event_null_body start =
     (Inl (Exn TypeError ''the JSON object must be str, bytes or bytearray, not NoneType''),
      \<lparr>calls = [], reads = 0\<rparr>)"
proof -
  have other: "py_json_loads sample_lib (dict_get event_null_body ''body'' (PStr ''{}''))
      = Inl (Exn TypeError ''the JSON object must be str, bytes or bytearray, not NoneType'')"
    by (simp add: py_json_loads_def dict_get_def event_null_body_def)
  have bad: "py_json_loads sample_lib (dict_get event_bad_json ''body'' (PStr ''{}''))
      = Inl (Exn JSONDecodeError ''Expecting value: line 1 column 1 (char 0)'')"
    by (simp add: py_json_loads_def dict_get_def event_bad_json_def sample_lib_def)
  have empty: "py_json_loads sample_lib (dict_get event_empty_topic ''body'' (PStr ''{}''))
      = Inr (PDict [(''topic'', PStr [])])"
    by (simp add: py_json_loads_def dict_get_def event_empty_topic_def sample_lib_def)
  have lst: "py_json_loads parsing_lib (dict_get event_json_list ''body'' (PStr ''{}''))
      = Inr (PList [PInt 1])"
    by (simp add: py_json_loads_def dict_get_def event_json_list_def parsing_lib_def)
  show ?thesis
    using invalid_request [of sample_globals sample_lib event_bad_json
        "Exn JSONDecodeError ''Expecting value: line 1 column 1 (char 0)''" calm]
      invalid_request [of sample_globals sample_lib event_empty_topic _ calm
        "[(''topic'', PStr [])]"]
      invalid_request [of sample_globals parsing_lib event_json_list _ calm _ "PList [PInt 1]"]
      invalid_request [of sample_globals sample_lib event_null_body
        "Exn TypeError ''the JSON object must be str, bytes or bytearray, not NoneType''" calm]
      sample_config_ok bad empty lst other
    by simp
qed

text \<open>
  C3 as stated fails on a body that lacks the field because it is not an object: the body
  \<^verbatim>\<open>null\<close> parses, \<^verbatim>\<open>None.get\<close> raises \<^verbatim>\<open>AttributeError\<close>, the clause of
  line 40 does not catch it, and no 400 response is returned.
\<close>

theorem invalid_request_counterexample:
  "config_ok sample_globals
   \<and> py_json_loads parsing_lib (dict_get event_json_null ''body'' (PStr ''{}'')) = Inr PNone
   \<and> lambda_handler parsing_lib calm sample_globals event_json_null start =
       (Inl (Exn AttributeError
          ([CHR 0x27] @ ''NoneType'' @ [CHR 0x27] @ '' object has no attribute ''
             @ [CHR 0x27] @ ''get'' @ [CHR 0x27])),
        \<lparr>calls = [], reads = 0\<rparr>)"
  by (simp add: sample_config_ok handler_config_ok parse_request_def py_json_loads_def
      py_get_def dict_get_def event_json_null_def parsing_lib_def start_def)

text \<open>
  C9. An event without the key \<^verbatim>\<open>body\<close> is handled as the body \<^verbatim>\<open>'{}'\<close>: with
  \<^verbatim>\<open>json.loads('{}')\<close> the empty dict, and once the configuration check has passed, the
  handler returns status 400 with the missing-topic body, makes no call, and raises nothing.
\<close>

theorem event_without_body_rejected:
  assumes "config_ok g"
    and "map_of event ''body'' = None"
    and "json_loads l ''{}'' = Inr (PDict [])"
  shows "lambda_handler l x g event start =
     (Inr \<lparr>statusCode = 400,
           body = json_dumps
             [(''error'', ''Missing '' @ [CHR 0x22] @ ''topic'' @ [CHR 0x22] @ '' in request body.'')]\<rparr>,
      \<lparr>calls = [], reads = 0\<rparr>)"
  using assms
  by (simp add: handler_config_ok parse_request_def py_json_loads_def py_get_def dict_get_def
      error_response_def start_def)

theorem event_without_body_rejected_witness:
  "lambda_handler sample_lib calm sample_globals event_without_body start =
     (Inr \<lparr>statusCode = 400,
           body = json_dumps
             [(''error'', ''Missing '' @ [CHR 0x22] @ ''topic'' @ [CHR 0x22] @ '' in request body.'')]\<rparr>,
      \<lparr>calls = [], reads = 0\<rparr>)"
proof -
  have nobody: "map_of event_without_body ''body'' = None"
    by (simp add: event_without_body_def)
  have empty: "json_loads sample_lib ''{}'' = Inr (PDict [])"
    by (simp add: sample_lib_def)
  show ?thesis
    by (rule event_without_body_rejected [OF sample_config_ok nobody empty])
qed

text \<open>
  C10. When the event has a \<^verbatim>\<open>body\<close> that is not a string and the configuration check
  has passed, \<^verbatim>\<open>json.loads\<close> raises \<^verbatim>\<open>TypeError\<close>, no clause catches it, and the
  exception leaves the handler: no response is returned and no call is made. Such inputs
  exist, for instance a \<^verbatim>\<open>body\<close> that is \<^verbatim>\<open>None\<close>.
\<close>

theorem non_string_body_raises:
  assumes "config_ok g"
    and "map_of event ''body'' = Some v"
    and "\<And>s. v \<noteq> PStr s"
  shows "lambda_handler l x g event start =
     (Inl (Exn TypeError (''the JSON object must be str, bytes or bytearray, not '' @ type_name v)),
      \<lparr>calls = [], reads = 0\<rparr>)"
  using assms
  by (cases v)
     (auto simp add: handler_config_ok parse_request_def py_json_loads_def dict_get_def start_def)

theorem non_string_body_raises_witness:
  "lambda_handler sample_lib calm sample_globals event_null_body start =
     (Inl (Exn TypeError ''the JSON object must be str, bytes or bytearray, not NoneType''),
      \<lparr>calls = [], reads = 0\<rparr>)"
proof -
  have present: "map_of event_null_body ''body'' = Some PNone"
    by (simp add: event_null_body_def)
  have "lambda_handler sample_lib calm sample_globals event_null_body start =
     (Inl (Exn TypeError (''the JSON object must be str, bytes or bytearray, not '' @ type_name PNone)),
      \<lparr>calls = [], reads = 0\<rparr>)"
    by (rule non_string_body_raises [OF sample_config_ok present]) simp
  then show ?thesis by simp
qed

section \<open>The chain of calls\<close>

text \<open>
  With the configuration present and a topic extracted, the handler makes the calls of
  \<open>pipeline\<close> in order until one raises. If none raises it returns the success response;
  otherwise it attempts the FAILED record as its last call and returns the generic
  response when that call returns.
\<close>

lemma handler_steps:
  assumes "config_ok g" and "parse_request l event = Inr (Inr research_topic)"
  shows "lambda_handler l x g event start =
     (let tr = run_steps x (pipeline l x g research_topic 0) in
      case raised tr of
        None \<Rightarrow> (Inr (success_response g (uuid4 x)), \<lparr>calls = tr, reads = 1\<rparr>)
      | Some e \<Rightarrow>
          (let n = (if length tr = 6 then 1 else 0);
               w = failure_write l x g research_topic e n in
           ((case perform x w of None \<Rightarrow> Inr internal_error_response | Some e' \<Rightarrow> Inl e'),
            \<lparr>calls = tr @ [(w, perform x w)], reads = Suc n\<rparr>)))"
proof -
  define tr where "tr = run_steps x (pipeline l x g research_topic 0)"
  have len: "raised tr = None \<Longrightarrow> length tr = 6"
    unfolding tr_def pipeline_def by (simp split: option.splits)
  show ?thesis
    using assms len
    by (simp add: handler_config_ok try_block_steps except_block_write start_def Let_def
        tr_def [symmetric] split: option.splits)
qed

lemma items_written_append:
  "items_written (xs @ ys) = items_written xs @ items_written ys"
  by (induction xs rule: items_written.induct) simp_all

lemma items_attempted_append:
  "items_attempted (xs @ ys) = items_attempted xs @ items_attempted ys"
  by (induction xs rule: items_attempted.induct) simp_all

lemma pipeline_raised_no_item:
  assumes "raised (run_steps x (pipeline l x g research_topic n)) = Some e"
  shows "items_written (run_steps x (pipeline l x g research_topic n)) = []"
  using assms
  by (simp add: pipeline_def llm_call_def agent_call_def split: option.splits)

lemma raised_all_returned: "raised (map (\<lambda>c. (c, None)) cs) = None"
  by (induction cs) simp_all

lemma sample_body:
  "py_json_loads sample_lib (dict_get sample_event ''body'' (PStr ''{}'')) =
     Inr (PDict [(''topic'', PStr ''coral bleaching'')])"
  by (simp add: py_json_loads_def dict_get_def sample_event_def sample_lib_def)

lemma sample_table: "DYNAMODB_TABLE_NAME sample_globals = Some ''research-tasks''"
  by (simp add: sample_globals_def)

lemma sample_parse:
  "parse_request sample_lib sample_event = Inr (Inr (PStr ''coral bleaching''))"
  by (rule parse_request_topic [OF sample_body]) simp_all

lemma sample_stamp:
  "isoformat (sample_clock 0) = ''2024-05-17T09:03:41.001250''"
  "isoformat (sample_clock (Suc 0)) = ''2024-05-17T09:03:42.001250''"
  by code_simp+

lemmas block_defs =
  try_block_def except_block_def bind_exn_def return_exn_def invoke_def agent_run_def
  utcnow_isoformat_def start_def llm_call_def agent_call_def

text \<open>The runs of the handler on the sample request in the failing worlds.\<close>

lemma run_ddb_down:
  "lambda_handler sample_lib ddb_down sample_globals sample_event start =
      (Inl service_error,
       \<lparr>calls = [(llm_call, None), (NewSearch, None), (agent_call, None),
         (AgentRun (prompt sample_lib (PStr ''coral bleaching'')), None),
         (PutObject (report_object sample_globals (uuid4 calm)
            (agent_report calm (prompt sample_lib (PStr ''coral bleaching'')))), None),
         (PutItem ''research-tasks'' (completed_item (uuid4 calm) (PStr ''coral bleaching'')
            (isoformat (sample_clock 0))), Some service_error),
         (PutItem ''research-tasks'' (failed_item (uuid4 calm) (PStr ''coral bleaching'')
            (format_exc sample_lib service_error) (isoformat (sample_clock 1))), Some service_error)],
        reads = 2\<rparr>)"
  by (simp add: handler_config_ok [OF sample_config_ok] sample_parse block_defs
      ddb_down_def sample_table)
     (simp add: calm_def)

lemma run_completed_write_fails:
  "lambda_handler sample_lib completed_write_fails sample_globals sample_event start =
      (Inr internal_error_response,
       \<lparr>calls = [(llm_call, None), (NewSearch, None), (agent_call, None),
         (AgentRun (prompt sample_lib (PStr ''coral bleaching'')), None),
         (PutObject (report_object sample_globals (uuid4 calm)
            (agent_report calm (prompt sample_lib (PStr ''coral bleaching'')))), None),
         (PutItem ''research-tasks'' (completed_item (uuid4 calm) (PStr ''coral bleaching'')
            (isoformat (sample_clock 0))), Some service_error),
         (PutItem ''research-tasks'' (failed_item (uuid4 calm) (PStr ''coral bleaching'')
            (format_exc sample_lib service_error) (isoformat (sample_clock 1))), None)],
        reads = 2\<rparr>)"
  by (simp add: handler_config_ok [OF sample_config_ok] sample_parse block_defs
      completed_write_fails_def sample_table completed_item_def failed_item_def)
     (simp add: calm_def)

lemma run_agent_fails:
  "lambda_handler sample_lib agent_fails sample_globals sample_event start =
      (Inr internal_error_response,
       \<lparr>calls = [(llm_call, None), (NewSearch, None), (agent_call, None),
         (AgentRun (prompt sample_lib (PStr ''coral bleaching'')), Some agent_error),
         (PutItem ''research-tasks'' (failed_item (uuid4 calm) (PStr ''coral bleaching'')
            (format_exc sample_lib agent_error) (isoformat (sample_clock 0))), None)],
        reads = 1\<rparr>)"
  by (simp add: handler_config_ok [OF sample_config_ok] sample_parse block_defs
      agent_fails_def sample_table)
     (simp add: calm_def)

lemma run_agent_fails_ddb_down:
  "lambda_handler sample_lib agent_fails_ddb_down sample_globals sample_event start =
      (Inl service_error,
       \<lparr>calls = [(llm_call, None), (NewSearch, None), (agent_call, None),
         (AgentRun (prompt sample_lib (PStr ''coral bleaching'')), Some agent_error),
         (PutItem ''research-tasks'' (failed_item (uuid4 calm) (PStr ''coral bleaching'')
            (format_exc sample_lib agent_error) (isoformat (sample_clock 0))), Some service_error)],
        reads = 1\<rparr>)"
  by (simp add: handler_config_ok [OF sample_config_ok] sample_parse block_defs
      agent_fails_ddb_down_def sample_table)
     (simp add: calm_def)

section \<open>The success path\<close>

text \<open>
  C1 (amended). With all four configuration values present, a body that parses to an object
  with a non-empty topic, an agent that is built and returns its report, and an object-store
  write and a COMPLETED registry write that both return, the handler writes exactly one
  object, whose body is the UTF-8 encoding of the report, under the key
  \<^verbatim>\<open>reports/<task_id>.txt\<close> with content type \<^verbatim>\<open>text/plain\<close>; writes exactly one
  record, holding the task id, the topic, that key, the status COMPLETED and the ISO-8601
  text of the UTC clock; and returns status 200 with a JSON body holding the message, the
  task id, the bucket name and the key.
\<close>

theorem completed_invocation:
  assumes cfg: "config_ok g"
    and bucket: "S3_BUCKET_NAME g = Some bucket"
    and table: "DYNAMODB_TABLE_NAME g = Some table"
    and body: "py_json_loads l (dict_get event ''body'' (PStr ''{}'')) = Inr (PDict d)"
    and topic: "map_of d ''topic'' = Some research_topic" "truthy research_topic"
    and agent: "perform x llm_call = None" "perform x NewSearch = None"
      "perform x agent_call = None" "perform x (AgentRun (prompt l research_topic)) = None"
    and s3: "perform x (PutObject (report_object g (uuid4 x)
        (agent_report x (prompt l research_topic)))) = None"
    and ddb: "perform x (PutItem table
        (completed_item (uuid4 x) research_topic (isoformat (utcnow x 0)))) = None"
  shows "fst (lambda_handler l x g event start) =
       Inr \<lparr>statusCode = 200,
            body = json_dumps
              [(''message'', ''Research task completed successfully!''),
               (''task_id'', uuid4 x),
               (''s3_bucket'', bucket),
               (''s3_key'', ''reports/'' @ uuid4 x @ ''.txt'')]\<rparr>
     \<and> objects_written (calls (snd (lambda_handler l x g event start))) =
       [\<lparr>Bucket = bucket,
         Key = ''reports/'' @ uuid4 x @ ''.txt'',
         Body = encode_utf8 (agent_report x (prompt l research_topic)),
         ContentType = ''text/plain''\<rparr>]
     \<and> items_written (calls (snd (lambda_handler l x g event start))) =
       [(table,
         [(''task_id'', PStr (uuid4 x)),
          (''research_topic'', research_topic),
          (''s3_report_key'', PStr (''reports/'' @ uuid4 x @ ''.txt'')),
          (''status'', PStr ''COMPLETED''),
          (''completed_at'', PStr (isoformat (utcnow x 0)))])]"
proof -
  have parse: "parse_request l event = Inr (Inr research_topic)"
    by (rule parse_request_topic [OF body topic])
  have tr: "run_steps x (pipeline l x g research_topic 0) =
      map (\<lambda>c. (c, None)) (pipeline l x g research_topic 0)"
    using agent s3 ddb table by (simp add: pipeline_def)
  have run: "lambda_handler l x g event start =
      (Inr (success_response g (uuid4 x)),
       \<lparr>calls = map (\<lambda>c. (c, None)) (pipeline l x g research_topic 0), reads = 1\<rparr>)"
    by (simp add: handler_steps [OF cfg parse] tr raised_all_returned)
  show ?thesis
    using bucket table
    by (simp add: run pipeline_def llm_call_def agent_call_def
        success_response_def s3_file_key_def report_object_def completed_item_def)
qed

theorem completed_invocation_witness:
  "fst (lambda_handler sample_lib calm sample_globals sample_event start) =
       Inr \<lparr>statusCode = 200,
            body = json_dumps
              [(''message'', ''Research task completed successfully!''),
               (''task_id'', ''1b4e28ba-2fa1-41d2-883f-0016d3cca427''),
               (''s3_bucket'', ''research-reports''),
               (''s3_key'', ''reports/1b4e28ba-2fa1-41d2-883f-0016d3cca427.txt'')]\<rparr>
     \<and> objects_written (calls (snd (lambda_handler sample_lib calm sample_globals sample_event start))) =
       [\<lparr>Bucket = ''research-reports'',
         Key = ''reports/1b4e28ba-2fa1-41d2-883f-0016d3cca427.txt'',
         Body = encode_utf8 ''Coral bleaching report...'',
         ContentType = ''text/plain''\<rparr>]
     \<and> items_written (calls (snd (lambda_handler sample_lib calm sample_globals sample_event start))) =
       [(''research-tasks'',
         [(''task_id'', PStr ''1b4e28ba-2fa1-41d2-883f-0016d3cca427''),
          (''research_topic'', PStr ''coral bleaching''),
          (''s3_report_key'', PStr ''reports/1b4e28ba-2fa1-41d2-883f-0016d3cca427.txt''),
          (''status'', PStr ''COMPLETED''),
          (''completed_at'', PStr ''2024-05-17T09:03:41.001250'')])]"
proof -
  have bucket: "S3_BUCKET_NAME sample_globals = Some ''research-reports''"
    and table: "DYNAMODB_TABLE_NAME sample_globals = Some ''research-tasks''"
    by (simp_all add: sample_globals_def)
  have topic: "map_of [(''topic'', PStr ''coral bleaching'')] ''topic'' = Some (PStr ''coral bleaching'')"
    "truthy (PStr ''coral bleaching'')"
    by simp_all
  have returns: "\<And>c. perform calm c = None"
    by (simp add: calm_def)
  have stamp: "isoformat (utcnow calm 0) = ''2024-05-17T09:03:41.001250''"
    by code_simp
  show ?thesis
    using completed_invocation [OF sample_config_ok bucket table sample_body topic
        returns returns returns returns returns returns]
    by (simp add: stamp) (simp add: calm_def)
qed

text \<open>
  C1 as stated fails when the agent completes and the object store refuses the write:
  nothing is stored and the response is the generic 500.
\<close>

theorem completed_invocation_counterexample:
  "config_ok sample_globals
   \<and> py_json_loads sample_lib (dict_get sample_event ''body'' (PStr ''{}'')) =
       Inr (PDict [(''topic'', PStr ''coral bleaching'')])
   \<and> perform s3_down llm_call = None \<and> perform s3_down NewSearch = None
   \<and> perform s3_down agent_call = None
   \<and> perform s3_down (AgentRun (prompt sample_lib (PStr ''coral bleaching''))) = None
   \<and> fst (lambda_handler sample_lib s3_down sample_globals sample_event start) =
       Inr internal_error_response
   \<and> statusCode internal_error_response = 500
   \<and> objects_written (calls (snd (lambda_handler sample_lib s3_down sample_globals sample_event start))) = []"
proof -
  have parse: "parse_request sample_lib sample_event = Inr (Inr (PStr ''coral bleaching''))"
    by (rule parse_request_topic [OF sample_body]) simp_all
  have tr: "run_steps s3_down (pipeline sample_lib s3_down sample_globals (PStr ''coral bleaching'') 0)
      = [(llm_call, None), (NewSearch, None), (agent_call, None),
         (AgentRun (prompt sample_lib (PStr ''coral bleaching'')), None),
         (PutObject (report_object sample_globals (uuid4 s3_down)
            (agent_report s3_down (prompt sample_lib (PStr ''coral bleaching'')))), Some service_error)]"
    by (simp add: pipeline_def s3_down_def llm_call_def agent_call_def)
  have w: "perform s3_down (failure_write sample_lib s3_down sample_globals
      (PStr ''coral bleaching'') service_error 0) = None"
    by (simp add: failure_write_def s3_down_def)
  have run: "lambda_handler sample_lib s3_down sample_globals sample_event start =
      (Inr internal_error_response,
       \<lparr>calls = [(llm_call, None), (NewSearch, None), (agent_call, None),
         (AgentRun (prompt sample_lib (PStr ''coral bleaching'')), None),
         (PutObject (report_object sample_globals (uuid4 s3_down)
            (agent_report s3_down (prompt sample_lib (PStr ''coral bleaching'')))), Some service_error),
         (failure_write sample_lib s3_down sample_globals (PStr ''coral bleaching'') service_error 0, None)],
        reads = 1\<rparr>)"
    by (simp add: handler_steps [OF sample_config_ok parse] tr w)
  show ?thesis
    by (simp add: run sample_config_ok sample_body)
       (simp add: s3_down_def llm_call_def agent_call_def failure_write_def
          internal_error_response_def error_response_def)
qed

section \<open>The failure path\<close>

text \<open>
  C2 (amended). When the configuration is present, a topic was extracted, a statement of
  the \<^verbatim>\<open>try\<close> block raises (agent construction, agent run, report-store write or
  COMPLETED registry write) and the FAILED registry write returns, the handler writes exactly
  one record, holding the task id, the topic, the status FAILED, the formatted traceback as
  error message and the ISO-8601 text of the UTC clock, and no report key, and returns
  status 500.
\<close>

theorem failed_invocation:
  assumes cfg: "config_ok g"
    and table: "DYNAMODB_TABLE_NAME g = Some table"
    and body: "py_json_loads l (dict_get event ''body'' (PStr ''{}'')) = Inr (PDict d)"
    and topic: "map_of d ''topic'' = Some research_topic" "truthy research_topic"
    and raise: "try_block l x g (uuid4 x) research_topic start = (Inl e, s1)"
    and ok: "perform x (PutItem table
        (failed_item (uuid4 x) research_topic (format_exc l e)
           (isoformat (utcnow x (reads s1))))) = None"
  shows "fst (lambda_handler l x g event start) =
       Inr \<lparr>statusCode = 500,
            body = json_dumps
              [(''error'', ''An internal server error occurred. Check CloudWatch logs for details.'')]\<rparr>
     \<and> items_written (calls (snd (lambda_handler l x g event start))) =
       [(table,
         [(''task_id'', PStr (uuid4 x)),
          (''research_topic'', research_topic),
          (''status'', PStr ''FAILED''),
          (''error_message'', PStr (format_exc l e)),
          (''completed_at'', PStr (isoformat (utcnow x (reads s1))))])]"
proof -
  have parse: "parse_request l event = Inr (Inr research_topic)"
    by (rule parse_request_topic [OF body topic])
  define tr where "tr = run_steps x (pipeline l x g research_topic 0)"
  from raise have r: "raised tr = Some e"
    and s1: "reads s1 = (if length tr = 6 then 1 else 0)"
    by (auto simp add: try_block_steps start_def Let_def tr_def split: option.splits)
  have none: "items_written tr = []"
    using r unfolding tr_def by (rule pipeline_raised_no_item)
  show ?thesis
    using r s1 ok table none
    by (simp add: handler_steps [OF cfg parse] tr_def [symmetric] Let_def failure_write_def
        items_written_append internal_error_response_def error_response_def failed_item_def)
qed

theorem failed_invocation_witness:
  "fst (lambda_handler sample_lib agent_fails sample_globals sample_event start) =
       Inr \<lparr>statusCode = 500,
            body = json_dumps
              [(''error'', ''An internal server error occurred. Check CloudWatch logs for details.'')]\<rparr>
     \<and> items_written (calls (snd (lambda_handler sample_lib agent_fails sample_globals sample_event start))) =
       [(''research-tasks'',
         [(''task_id'', PStr ''1b4e28ba-2fa1-41d2-883f-0016d3cca427''),
          (''research_topic'', PStr ''coral bleaching''),
          (''status'', PStr ''FAILED''),
          (''error_message'', PStr ''Traceback (most recent call last): Could not parse LLM output''),
          (''completed_at'', PStr ''2024-05-17T09:03:41.001250'')])]"
proof -
  have topic: "map_of [(''topic'', PStr ''coral bleaching'')] ''topic'' = Some (PStr ''coral bleaching'')"
    "truthy (PStr ''coral bleaching'')"
    by simp_all
  have raise: "try_block sample_lib agent_fails sample_globals (uuid4 agent_fails)
      (PStr ''coral bleaching'') start =
        (Inl agent_error,
         \<lparr>calls = [(llm_call, None), (NewSearch, None), (agent_call, None),
            (AgentRun (prompt sample_lib (PStr ''coral bleaching'')), Some agent_error)],
          reads = 0\<rparr>)"
    by (simp add: block_defs agent_fails_def)
  have ok: "perform agent_fails (PutItem ''research-tasks''
      (failed_item (uuid4 agent_fails) (PStr ''coral bleaching'')
         (format_exc sample_lib agent_error)
         (isoformat (utcnow agent_fails
            (reads \<lparr>calls = [(llm_call, None), (NewSearch, None), (agent_call, None),
               (AgentRun (prompt sample_lib (PStr ''coral bleaching'')), Some agent_error)],
             reads = 0\<rparr>))))) = None"
    by (simp add: agent_fails_def)
  show ?thesis
    using failed_invocation [OF sample_config_ok sample_table sample_body topic raise ok]
    by (simp add: agent_fails_def calm_def sample_stamp sample_lib_def agent_error_def)
qed

text \<open>
  C2 as stated fails when the table is unavailable: the COMPLETED registry write raises, the
  FAILED registry write raises as well, the second exception leaves the handler, no record
  is written and no response is returned.
\<close>

theorem failed_invocation_counterexample:
  "fst (try_block sample_lib ddb_down sample_globals (uuid4 ddb_down)
         (PStr ''coral bleaching'') start) = Inl service_error
   \<and> fst (lambda_handler sample_lib ddb_down sample_globals sample_event start) = Inl service_error
   \<and> items_written (calls (snd (lambda_handler sample_lib ddb_down sample_globals sample_event start))) = []"
proof -
  have block: "fst (try_block sample_lib ddb_down sample_globals (uuid4 ddb_down)
         (PStr ''coral bleaching'') start) = Inl service_error"
    by (simp add: block_defs ddb_down_def)
  show ?thesis
    by (simp add: run_ddb_down block) (simp add: llm_call_def agent_call_def)
qed

section \<open>Writes to the registry\<close>

lemma handler_no_calls:
  assumes "\<not> config_ok g \<or> (\<forall>t. parse_request l event \<noteq> Inr (Inr t))"
  shows "snd (lambda_handler l x g event start) = start"
  using assms
  by (auto simp add: lambda_handler_def config_ok_def split: sum.splits)

lemma pipeline_attempts:
  "items_attempted (run_steps x (pipeline l x g research_topic n)) =
     (if length (run_steps x (pipeline l x g research_topic n)) = 6
      then [(the (DYNAMODB_TABLE_NAME g),
             completed_item (uuid4 x) research_topic (isoformat (utcnow x n)))]
      else [])"
  by (simp add: pipeline_def llm_call_def agent_call_def split: option.splits)

lemma pipeline_written:
  "items_written (run_steps x (pipeline l x g research_topic n)) =
     (if raised (run_steps x (pipeline l x g research_topic n)) = None
      then [(the (DYNAMODB_TABLE_NAME g),
             completed_item (uuid4 x) research_topic (isoformat (utcnow x n)))]
      else [])"
  by (simp add: pipeline_def llm_call_def agent_call_def split: option.splits)

lemma pipeline_full_raised:
  assumes "length (run_steps x (pipeline l x g research_topic n)) = 6"
  shows "raised (run_steps x (pipeline l x g research_topic n)) =
     perform x (PutItem (the (DYNAMODB_TABLE_NAME g))
        (completed_item (uuid4 x) research_topic (isoformat (utcnow x n))))"
  using assms
  by (simp add: pipeline_def split: option.splits)

text \<open>
  C5 (amended). In every invocation at most one metadata-store write returns and at most
  two are attempted, each for the generated task identifier. When two are attempted, they
  are the last two calls of the invocation: the COMPLETED write, which raised, and then the
  FAILED write for the same task identifier.
\<close>

theorem registry_writes:
  assumes "lambda_handler l x g event start = (r, s')"
  shows "length (items_written (calls s')) \<le> 1
     \<and> length (items_attempted (calls s')) \<le> 2
     \<and> (\<forall>(t, i) \<in> set (items_attempted (calls s')). map_of i ''task_id'' = Some (PStr (uuid4 x)))
     \<and> (length (items_attempted (calls s')) = 2 \<longrightarrow>
          (\<exists>pre t i e' f e. calls s' = pre @ [(PutItem t i, Some e'), (PutItem t f, e)]
             \<and> map_of i ''status'' = Some (PStr ''COMPLETED'')
             \<and> map_of f ''status'' = Some (PStr ''FAILED'')))"
proof (cases "config_ok g \<and> (\<exists>t. parse_request l event = Inr (Inr t))")
  case False
  then have "snd (lambda_handler l x g event start) = start"
    by (intro handler_no_calls) auto
  with assms have "calls s' = []" by (simp add: start_def)
  then show ?thesis by simp
next
  case True
  then obtain t where cfg: "config_ok g" and parse: "parse_request l event = Inr (Inr t)"
    by auto
  define tr where "tr = run_steps x (pipeline l x g t 0)"
  show ?thesis
  proof (cases "raised tr")
    case None
    with assms have "calls s' = tr"
      by (auto simp add: handler_steps [OF cfg parse] tr_def [symmetric] Let_def)
    then show ?thesis
      unfolding tr_def
      by (simp add: pipeline_attempts pipeline_written completed_item_def)
  next
    case (Some e)
    define w where "w = failure_write l x g t e (if length tr = 6 then 1 else 0)"
    from Some assms have c: "calls s' = tr @ [(w, perform x w)]"
      by (auto simp add: handler_steps [OF cfg parse] tr_def [symmetric] w_def Let_def)
    have wr: "items_written tr = []"
      using Some unfolding tr_def by (simp add: pipeline_written)
    show ?thesis
    proof (cases "length tr = 6")
      case True
      from True Some have "perform x (PutItem (the (DYNAMODB_TABLE_NAME g))
          (completed_item (uuid4 x) t (isoformat (utcnow x 0)))) = Some e"
        unfolding tr_def by (simp add: pipeline_full_raised)
      then have last: "\<exists>c'. tr = c' @ [(PutItem (the (DYNAMODB_TABLE_NAME g))
          (completed_item (uuid4 x) t (isoformat (utcnow x 0))), Some e)]"
        using True unfolding tr_def
        by (simp add: pipeline_def split: option.splits)
      from True have att: "items_attempted tr = [(the (DYNAMODB_TABLE_NAME g),
             completed_item (uuid4 x) t (isoformat (utcnow x 0)))]"
        unfolding tr_def by (simp add: pipeline_attempts)
      show ?thesis
        using last
        by (cases "perform x w")
           (auto simp add: c wr att items_written_append items_attempted_append w_def
              failure_write_def completed_item_def failed_item_def)
    next
      case False
      then have att: "items_attempted tr = []"
        unfolding tr_def by (simp add: pipeline_attempts)
      show ?thesis
        by (cases "perform x w")
           (simp_all add: c wr att items_written_append items_attempted_append w_def
              failure_write_def failed_item_def)
    qed
  qed
qed

theorem registry_writes_witness:
  "length (items_written (calls (snd
      (lambda_handler sample_lib completed_write_fails sample_globals sample_event start)))) \<le> 1
   \<and> length (items_attempted (calls (snd
      (lambda_handler sample_lib completed_write_fails sample_globals sample_event start)))) = 2"
proof -
  have two: "length (items_attempted (calls (snd
      (lambda_handler sample_lib completed_write_fails sample_globals sample_event start)))) = 2"
    by (simp add: run_completed_write_fails llm_call_def agent_call_def)
  have one: "length (items_written (calls (snd
      (lambda_handler sample_lib completed_write_fails sample_globals sample_event start)))) \<le> 1"
    using registry_writes [OF run_completed_write_fails, THEN conjunct1]
    by (simp add: run_completed_write_fails)
  show ?thesis
    using one two by simp
qed

text \<open>
  C5 as stated fails when the COMPLETED write raises: the handler then attempts the FAILED
  write, so both a COMPLETED and a FAILED write are attempted for the same task identifier.
\<close>

theorem registry_writes_counterexample:
  "map (\<lambda>(t, i). (t, map_of i ''task_id'', map_of i ''status''))
     (items_attempted (calls (snd
        (lambda_handler sample_lib completed_write_fails sample_globals sample_event start)))) =
   [(''research-tasks'', Some (PStr ''1b4e28ba-2fa1-41d2-883f-0016d3cca427''), Some (PStr ''COMPLETED'')),
    (''research-tasks'', Some (PStr ''1b4e28ba-2fa1-41d2-883f-0016d3cca427''), Some (PStr ''FAILED''))]"
  by (simp add: run_completed_write_fails llm_call_def agent_call_def completed_item_def
      failed_item_def calm_def)

section \<open>The body of the error response\<close>

lemma generic_body:
  \<open>body internal_error_response =
     ''{"error": "An internal server error occurred. Check CloudWatch logs for details."}''\<close>
  by (simp add: internal_error_response_def error_response_def json_dumps_def json_string_def
      json_escape_def)

text \<open>
  C6 (amended). When a statement of the \<^verbatim>\<open>try\<close> block raises and the handler returns a
  response, the response has status 500 and its body is the fixed text
  \<^verbatim>\<open>{"error": "An internal server error occurred. Check CloudWatch logs for details."}\<close>,
  whatever the exception and the task identifier are: it holds the generic message only,
  neither the traceback nor the task identifier.
\<close>

theorem internal_error_body:
  assumes "config_ok g"
    and "parse_request l event = Inr (Inr research_topic)"
    and "try_block l x g (uuid4 x) research_topic start = (Inl e, s1)"
    and "fst (lambda_handler l x g event start) = Inr resp"
  shows \<open>statusCode resp = 500
     \<and> body resp = json_dumps
          [(''error'', ''An internal server error occurred. Check CloudWatch logs for details.'')]
     \<and> body resp =
          ''{"error": "An internal server error occurred. Check CloudWatch logs for details."}''\<close>
proof -
  have "lambda_handler l x g event start = except_block l x g (uuid4 x) research_topic e s1"
    using assms(1-3) by (simp add: handler_config_ok)
  with assms(4) have "resp = internal_error_response"
    by (auto simp add: except_block_write Let_def split: option.splits)
  then show ?thesis
    using generic_body by (simp add: internal_error_response_def error_response_def)
qed

theorem internal_error_body_witness:
  \<open>fst (lambda_handler sample_lib agent_fails sample_globals sample_event start) =
     Inr internal_error_response
   \<and> statusCode internal_error_response = 500
   \<and> body internal_error_response =
       ''{"error": "An internal server error occurred. Check CloudWatch logs for details."}''\<close>
proof -
  have raise: "try_block sample_lib agent_fails sample_globals (uuid4 agent_fails)
      (PStr ''coral bleaching'') start =
        (Inl agent_error,
         \<lparr>calls = [(llm_call, None), (NewSearch, None), (agent_call, None),
            (AgentRun (prompt sample_lib (PStr ''coral bleaching'')), Some agent_error)],
          reads = 0\<rparr>)"
    by (simp add: block_defs agent_fails_def)
  have resp: "fst (lambda_handler sample_lib agent_fails sample_globals sample_event start) =
      Inr internal_error_response"
    by (simp add: run_agent_fails)
  note th = internal_error_body [OF sample_config_ok sample_parse raise resp]
  show ?thesis
    using resp th [THEN conjunct1] th [THEN conjunct2, THEN conjunct2]
    by simp
qed

text \<open>
  C6 as stated fails on the task identifier: in the \<^verbatim>\<open>except\<close> clause the identifier is
  available, and the body returned does not contain it.
\<close>

theorem internal_error_body_counterexample:
  "fst (lambda_handler sample_lib agent_fails sample_globals sample_event start) =
     Inr internal_error_response
   \<and> uuid4 agent_fails = ''1b4e28ba-2fa1-41d2-883f-0016d3cca427''
   \<and> \<not> occurs_in ''1b4e28ba-2fa1-41d2-883f-0016d3cca427'' (body internal_error_response)
   \<and> occurs_in ''An internal server error occurred.'' (body internal_error_response)"
  by (simp add: run_agent_fails generic_body) (simp add: agent_fails_def calm_def)

section \<open>The order of the steps\<close>

lemma run_steps_prefix: "map fst (run_steps x cs) = take (length (run_steps x cs)) cs"
  by (induction cs) (simp_all split: option.splits)

lemma run_steps_inner:
  "i + 1 < length (run_steps x cs) \<Longrightarrow> snd (run_steps x cs ! i) = None"
proof (induction cs arbitrary: i)
  case Nil
  then show ?case by simp
next
  case (Cons c cs)
  show ?case
  proof (cases "perform x c")
    case None
    with Cons show ?thesis by (cases i) simp_all
  next
    case (Some e)
    with Cons.prems show ?thesis by simp
  qed
qed

lemma run_steps_raised_last:
  "raised (run_steps x cs) = Some e \<Longrightarrow> snd (last (run_steps x cs)) = Some e"
proof (induction cs)
  case Nil
  then show ?case by simp
next
  case (Cons c cs)
  show ?case
  proof (cases "perform x c")
    case None
    with Cons have "run_steps x cs \<noteq> []" by auto
    with Cons None show ?thesis by simp
  next
    case (Some e')
    with Cons.prems show ?thesis by simp
  qed
qed

lemma pipeline_distinct:
  "distinct (pipeline l x g research_topic n @ [failure_write l x g research_topic e m])"
  by (simp add: pipeline_def failure_write_def llm_call_def agent_call_def
      completed_item_def failed_item_def)

lemma handler_order:
  assumes "lambda_handler l x g event start = (r, s')"
  shows "distinct (map fst (calls s'))
    \<and> (\<not> config_ok g \<longrightarrow> calls s' = [] \<and> (\<exists>resp. r = Inr resp \<and> statusCode resp = 500))
    \<and> (config_ok g \<longrightarrow>
        (case parse_request l event of
           Inl e \<Rightarrow> r = Inl e \<and> calls s' = []
         | Inr (Inl resp) \<Rightarrow> r = Inr resp \<and> statusCode resp = 400 \<and> calls s' = []
         | Inr (Inr research_topic) \<Rightarrow>
             (let steps = pipeline l x g research_topic 0; tr = run_steps x steps in
              map fst tr = take (length tr) steps
              \<and> (\<forall>i. i + 1 < length tr \<longrightarrow> snd (tr ! i) = None)
              \<and> (case raised tr of
                   None \<Rightarrow>
                     length tr = 6 \<and> calls s' = tr \<and> r = Inr (success_response g (uuid4 x))
                 | Some e \<Rightarrow>
                     (let w = failure_write l x g research_topic e (if length tr = 6 then 1 else 0) in
                      snd (last tr) = Some e
                      \<and> calls s' = tr @ [(w, perform x w)]
                      \<and> r = (case perform x w of
                                None \<Rightarrow> Inr internal_error_response
                              | Some e' \<Rightarrow> Inl e'))))))"
proof (cases "config_ok g")
  case False
  with assms show ?thesis
    by (auto simp add: lambda_handler_def config_ok_def error_response_def start_def
        split: if_splits)
next
  case cfg: True
  show ?thesis
  proof (cases "parse_request l event")
    case (Inl e)
    with assms cfg show ?thesis
      by (auto simp add: handler_config_ok start_def)
  next
    case (Inr v)
    show ?thesis
    proof (cases v)
      case (Inl resp)
      with Inr assms cfg parse_request_status [of l event resp] show ?thesis
        by (auto simp add: handler_config_ok start_def)
    next
      case (Inr t)
      with \<open>parse_request l event = Inr v\<close> have parse: "parse_request l event = Inr (Inr t)"
        by simp
      define steps where "steps = pipeline l x g t 0"
      define tr where "tr = run_steps x steps"
      have pre: "map fst tr = take (length tr) steps"
        unfolding tr_def by (rule run_steps_prefix)
      have inner: "\<forall>i. i + 1 < length tr \<longrightarrow> snd (tr ! i) = None"
        unfolding tr_def by (simp add: run_steps_inner)
      have full: "raised tr = None \<Longrightarrow> length tr = 6"
        unfolding tr_def steps_def pipeline_def by (simp split: option.splits)
      have run: "(r, s') =
         (case raised tr of
            None \<Rightarrow> (Inr (success_response g (uuid4 x)), \<lparr>calls = tr, reads = 1\<rparr>)
          | Some e \<Rightarrow>
              (let n = (if length tr = 6 then 1 else 0);
                   w = failure_write l x g t e n in
               ((case perform x w of None \<Rightarrow> Inr internal_error_response | Some e' \<Rightarrow> Inl e'),
                \<lparr>calls = tr @ [(w, perform x w)], reads = Suc n\<rparr>)))"
        using assms unfolding tr_def steps_def
        by (simp add: handler_steps [OF cfg parse] Let_def)
      have d: "distinct (map fst (calls s'))"
      proof (cases "raised tr")
        case None
        with run have "calls s' = tr" by simp
        moreover have "distinct (take (length tr) steps)"
          using pipeline_distinct [of l x g t 0 undefined 0] unfolding steps_def
          by (intro distinct_take) simp
        ultimately show ?thesis using pre by simp
      next
        case (Some e)
        define w where "w = failure_write l x g t e (if length tr = 6 then 1 else 0)"
        from Some run have c: "calls s' = tr @ [(w, perform x w)]"
          by (simp add: w_def Let_def)
        have "distinct (steps @ [w])"
          unfolding steps_def w_def by (rule pipeline_distinct)
        then have "distinct (take (length tr) steps)" and "w \<notin> set (take (length tr) steps)"
          by (auto dest: in_set_takeD)
        then show ?thesis using pre by (simp add: c)
      qed
      have rest: "case raised tr of
                   None \<Rightarrow>
                     length tr = 6 \<and> calls s' = tr \<and> r = Inr (success_response g (uuid4 x))
                 | Some e \<Rightarrow>
                     (let w = failure_write l x g t e (if length tr = 6 then 1 else 0) in
                      snd (last tr) = Some e
                      \<and> calls s' = tr @ [(w, perform x w)]
                      \<and> r = (case perform x w of
                                None \<Rightarrow> Inr internal_error_response
                              | Some e' \<Rightarrow> Inl e'))"
      proof (cases "raised tr")
        case None
        with run full show ?thesis by simp
      next
        case (Some e)
        then have "snd (last tr) = Some e"
          unfolding tr_def by (rule run_steps_raised_last)
        with Some run show ?thesis by (simp add: Let_def)
      qed
      show ?thesis
        using cfg parse d pre inner rest unfolding tr_def steps_def
        by (simp add: Let_def)
    qed
  qed
qed


lemma logged_returns:
  assumes "parse_request l event = Inr (Inr t)"
    and "out (start_text l (uuid4 x) t) = None"
  shows "lambda_handler_logged l out x g event s = lambda_handler l x g event s"
  using assms by (simp add: lambda_handler_logged_def lambda_handler_def Let_def)

lemma logged_no_topic:
  assumes "\<And>t. parse_request l event \<noteq> Inr (Inr t)"
  shows "lambda_handler_logged l out x g event s = lambda_handler l x g event s"
  using assms
  by (auto simp add: lambda_handler_logged_def lambda_handler_def Let_def split: sum.splits)

lemma logged_raises:
  assumes "config_ok g"
    and "parse_request l event = Inr (Inr t)"
    and "out (start_text l (uuid4 x) t) = Some e"
  shows "lambda_handler_logged l out x g event s = (Inl e, s)"
  using assms by (simp add: lambda_handler_logged_def config_ok_def Let_def)

lemma logged_no_config:
  assumes "\<not> config_ok g"
  shows "lambda_handler_logged l out x g event s = lambda_handler l x g event s"
  using assms by (auto simp add: lambda_handler_logged_def lambda_handler_def config_ok_def)

text \<open>
  C8 (amended). Taking every exception to be an instance of \<^verbatim>\<open>Exception\<close> and every log
  write other than that of line 47 to return: in every invocation the configuration check
  comes first and, when it fails, ends the invocation with a 500 response and no call;
  request validation comes second and ends the invocation with no call, either with a 400
  response or with the exception it did not catch. Then the task identifier is drawn and
  line 47 writes to the log; when that write raises, the exception leaves the handler with
  no call, no FAILED record and no response. After that the calls are made in the fixed
  order agent construction, agent run, report-store write, COMPLETED registry write, each
  only after all earlier ones returned; the 200 response follows the sixth. When one of them
  raises, the later ones are skipped and the FAILED registry write is attempted as the last
  call; the handler responds 500 when that write returns, and when it raises the exception
  leaves the handler without a response. No call is made twice.
\<close>

theorem invocation_order:
  assumes "lambda_handler_logged l out x g event start = (r, s')"
  shows "distinct (map fst (calls s'))
    \<and> (\<not> config_ok g \<longrightarrow> calls s' = [] \<and> (\<exists>resp. r = Inr resp \<and> statusCode resp = 500))
    \<and> (config_ok g \<longrightarrow>
        (case parse_request l event of
           Inl e \<Rightarrow> r = Inl e \<and> calls s' = []
         | Inr (Inl resp) \<Rightarrow> r = Inr resp \<and> statusCode resp = 400 \<and> calls s' = []
         | Inr (Inr research_topic) \<Rightarrow>
             (case out (start_text l (uuid4 x) research_topic) of
                Some e \<Rightarrow> r = Inl e \<and> calls s' = []
              | None \<Rightarrow>
                 (let steps = pipeline l x g research_topic 0; tr = run_steps x steps in
                  map fst tr = take (length tr) steps
                  \<and> (\<forall>i. i + 1 < length tr \<longrightarrow> snd (tr ! i) = None)
                  \<and> (case raised tr of
                       None \<Rightarrow>
                         length tr = 6 \<and> calls s' = tr \<and> r = Inr (success_response g (uuid4 x))
                     | Some e \<Rightarrow>
                         (let w = failure_write l x g research_topic e
                                    (if length tr = 6 then 1 else 0) in
                          snd (last tr) = Some e
                          \<and> calls s' = tr @ [(w, perform x w)]
                          \<and> r = (case perform x w of
                                    None \<Rightarrow> Inr internal_error_response
                                  | Some e' \<Rightarrow> Inl e')))))))"
proof (cases "config_ok g \<and> (\<exists>t e. parse_request l event = Inr (Inr t)
    \<and> out (start_text l (uuid4 x) t) = Some e)")
  case True
  then obtain t e where cfg: "config_ok g" and parse: "parse_request l event = Inr (Inr t)"
    and raise: "out (start_text l (uuid4 x) t) = Some e"
    by auto
  from assms have "r = Inl e" and "s' = start"
    by (simp_all add: logged_raises [where out = out, OF cfg parse raise])
  then show ?thesis
    using cfg parse raise by (simp add: start_def)
next
  case False
  have same: "lambda_handler_logged l out x g event start = lambda_handler l x g event start"
  proof (cases "config_ok g")
    case False
    then show ?thesis by (simp add: logged_no_config [where out = out])
  next
    case cfg: True
    show ?thesis
    proof (cases "\<exists>t. parse_request l event = Inr (Inr t)")
      case True
      then obtain t where parse: "parse_request l event = Inr (Inr t)" by auto
      with False cfg have "out (start_text l (uuid4 x) t) = None"
        by (cases "out (start_text l (uuid4 x) t)") auto
      with parse show ?thesis by (simp add: logged_returns [where out = out])
    next
      case False
      then show ?thesis by (simp add: logged_no_topic [where out = out])
    qed
  qed
  with assms have run: "lambda_handler l x g event start = (r, s')" by simp
  note base = handler_order [OF run]
  have d: "distinct (map fst (calls s'))"
    using base by blast
  have nc: "\<not> config_ok g \<longrightarrow> calls s' = [] \<and> (\<exists>resp. r = Inr resp \<and> statusCode resp = 500)"
    using base by blast
  have c: "config_ok g \<longrightarrow> (case parse_request l event of
           Inl e \<Rightarrow> r = Inl e \<and> calls s' = []
         | Inr (Inl resp) \<Rightarrow> r = Inr resp \<and> statusCode resp = 400 \<and> calls s' = []
         | Inr (Inr research_topic) \<Rightarrow>
             (case out (start_text l (uuid4 x) research_topic) of
                Some e \<Rightarrow> r = Inl e \<and> calls s' = []
              | None \<Rightarrow>
                 (let steps = pipeline l x g research_topic 0; tr = run_steps x steps in
                  map fst tr = take (length tr) steps
                  \<and> (\<forall>i. i + 1 < length tr \<longrightarrow> snd (tr ! i) = None)
                  \<and> (case raised tr of
                       None \<Rightarrow>
                         length tr = 6 \<and> calls s' = tr \<and> r = Inr (success_response g (uuid4 x))
                     | Some e \<Rightarrow>
                         (let w = failure_write l x g research_topic e
                                    (if length tr = 6 then 1 else 0) in
                          snd (last tr) = Some e
                          \<and> calls s' = tr @ [(w, perform x w)]
                          \<and> r = (case perform x w of
                                    None \<Rightarrow> Inr internal_error_response
                                  | Some e' \<Rightarrow> Inl e'))))))"
  proof (rule impI)
    assume cfg: "config_ok g"
    with base have b: "case parse_request l event of
           Inl e \<Rightarrow> r = Inl e \<and> calls s' = []
         | Inr (Inl resp) \<Rightarrow> r = Inr resp \<and> statusCode resp = 400 \<and> calls s' = []
         | Inr (Inr research_topic) \<Rightarrow>
                 (let steps = pipeline l x g research_topic 0; tr = run_steps x steps in
                  map fst tr = take (length tr) steps
                  \<and> (\<forall>i. i + 1 < length tr \<longrightarrow> snd (tr ! i) = None)
                  \<and> (case raised tr of
                       None \<Rightarrow>
                         length tr = 6 \<and> calls s' = tr \<and> r = Inr (success_response g (uuid4 x))
                     | Some e \<Rightarrow>
                         (let w = failure_write l x g research_topic e
                                    (if length tr = 6 then 1 else 0) in
                          snd (last tr) = Some e
                          \<and> calls s' = tr @ [(w, perform x w)]
                          \<and> r = (case perform x w of
                                    None \<Rightarrow> Inr internal_error_response
                                  | Some e' \<Rightarrow> Inl e'))))"
      by blast
    show "case parse_request l event of
           Inl e \<Rightarrow> r = Inl e \<and> calls s' = []
         | Inr (Inl resp) \<Rightarrow> r = Inr resp \<and> statusCode resp = 400 \<and> calls s' = []
         | Inr (Inr research_topic) \<Rightarrow>
             (case out (start_text l (uuid4 x) research_topic) of
                Some e \<Rightarrow> r = Inl e \<and> calls s' = []
              | None \<Rightarrow>
                 (let steps = pipeline l x g research_topic 0; tr = run_steps x steps in
                  map fst tr = take (length tr) steps
                  \<and> (\<forall>i. i + 1 < length tr \<longrightarrow> snd (tr ! i) = None)
                  \<and> (case raised tr of
                       None \<Rightarrow>
                         length tr = 6 \<and> calls s' = tr \<and> r = Inr (success_response g (uuid4 x))
                     | Some e \<Rightarrow>
                         (let w = failure_write l x g research_topic e
                                    (if length tr = 6 then 1 else 0) in
                          snd (last tr) = Some e
                          \<and> calls s' = tr @ [(w, perform x w)]
                          \<and> r = (case perform x w of
                                    None \<Rightarrow> Inr internal_error_response
                                  | Some e' \<Rightarrow> Inl e')))))"
    proof (cases "parse_request l event")
      case (Inl e)
      with b show ?thesis by simp
    next
      case (Inr v)
      show ?thesis
      proof (cases v)
        case (Inl resp)
        with Inr b show ?thesis by simp
      next
        case (Inr t)
        with \<open>parse_request l event = Inr v\<close> have parse: "parse_request l event = Inr (Inr t)"
          by simp
        with False cfg have quiet: "out (start_text l (uuid4 x) t) = None"
          by (cases "out (start_text l (uuid4 x) t)") auto
        from b parse show ?thesis
          by (simp only: parse quiet sum.case option.case)
      qed
    qed
  qed
  show ?thesis
    by (intro conjI) (rule d, rule nc, rule c)
qed

lemma accent_parse:
  "parse_request accent_lib event_accent = Inr (Inr (PStr accent_topic))"
proof -
  have "py_json_loads accent_lib (dict_get event_accent ''body'' (PStr ''{}'')) =
      Inr (PDict [(''topic'', PStr accent_topic)])"
    by (simp add: py_json_loads_def dict_get_def event_accent_def accent_lib_def)
  then show ?thesis
    by (rule parse_request_topic) (simp_all add: accent_topic_def)
qed

lemma accent_rejected:
  "ascii_stdout (start_text accent_lib (uuid4 calm) (PStr accent_topic)) =
     Some (Exn (OtherException ''UnicodeEncodeError'')
       ''codec can't encode character: ordinal not in range(128)'')"
  by (simp add: ascii_stdout_def start_text_def format_value_def accent_topic_def calm_def)

lemma run_accent:
  "lambda_handler_logged accent_lib ascii_stdout calm sample_globals event_accent start =
     (Inl (Exn (OtherException ''UnicodeEncodeError'')
        ''codec can't encode character: ordinal not in range(128)''),
      \<lparr>calls = [], reads = 0\<rparr>)"
  using logged_raises [where out = ascii_stdout, OF sample_config_ok accent_parse accent_rejected,
      of start]
  by (simp add: start_def)

lemma logged_agent_fails:
  "lambda_handler_logged sample_lib wide_stdout agent_fails sample_globals sample_event start =
     lambda_handler sample_lib agent_fails sample_globals sample_event start"
  by (rule logged_returns [where out = wide_stdout, OF sample_parse]) (simp add: wide_stdout_def)

lemma logged_agent_fails_ddb_down:
  "lambda_handler_logged sample_lib wide_stdout agent_fails_ddb_down sample_globals sample_event start =
     lambda_handler sample_lib agent_fails_ddb_down sample_globals sample_event start"
  by (rule logged_returns [where out = wide_stdout, OF sample_parse]) (simp add: wide_stdout_def)

theorem invocation_order_witness:
  "distinct (map fst (calls (snd
      (lambda_handler_logged sample_lib wide_stdout agent_fails sample_globals sample_event start))))
   \<and> map fst (calls (snd
      (lambda_handler_logged sample_lib wide_stdout agent_fails sample_globals sample_event start))) =
       take 4 (pipeline sample_lib agent_fails sample_globals (PStr ''coral bleaching'') 0)
         @ [failure_write sample_lib agent_fails sample_globals (PStr ''coral bleaching'') agent_error 0]
   \<and> fst (lambda_handler_logged sample_lib wide_stdout agent_fails sample_globals sample_event start) =
       Inr internal_error_response"
proof (intro conjI)
  have run: "lambda_handler_logged sample_lib wide_stdout agent_fails sample_globals sample_event start =
      (Inr internal_error_response,
       \<lparr>calls = [(llm_call, None), (NewSearch, None), (agent_call, None),
         (AgentRun (prompt sample_lib (PStr ''coral bleaching'')), Some agent_error),
         (PutItem ''research-tasks'' (failed_item (uuid4 calm) (PStr ''coral bleaching'')
            (format_exc sample_lib agent_error) (isoformat (sample_clock 0))), None)],
        reads = 1\<rparr>)"
    by (simp only: logged_agent_fails run_agent_fails)
  show "distinct (map fst (calls (snd
      (lambda_handler_logged sample_lib wide_stdout agent_fails sample_globals sample_event start))))"
    unfolding run snd_conv
    by (rule invocation_order [OF run, THEN conjunct1])
  show "map fst (calls (snd
      (lambda_handler_logged sample_lib wide_stdout agent_fails sample_globals sample_event start))) =
       take 4 (pipeline sample_lib agent_fails sample_globals (PStr ''coral bleaching'') 0)
         @ [failure_write sample_lib agent_fails sample_globals (PStr ''coral bleaching'') agent_error 0]"
    by (simp add: run pipeline_def failure_write_def sample_table)
       (simp add: agent_fails_def calm_def)
  show "fst (lambda_handler_logged sample_lib wide_stdout agent_fails sample_globals sample_event start) =
       Inr internal_error_response"
    by (simp add: run)
qed

text \<open>
  C8 as stated fails on the alternate edge, in two ways. With the agent failing and the
  table unavailable, the FAILED write is attempted and raises, so the invocation ends with
  neither a FAILED record nor a response. With a topic that stdout cannot encode, line 47
  raises after the task identifier is drawn and outside both \<^verbatim>\<open>try\<close> blocks, so the
  invocation ends without any call.
\<close>

theorem invocation_order_counterexample:
  "fst (lambda_handler_logged sample_lib wide_stdout agent_fails_ddb_down sample_globals
          sample_event start) = Inl service_error
   \<and> map fst (calls (snd
        (lambda_handler_logged sample_lib wide_stdout agent_fails_ddb_down sample_globals
           sample_event start))) =
      [llm_call, NewSearch, agent_call, AgentRun (prompt sample_lib (PStr ''coral bleaching'')),
       failure_write sample_lib agent_fails_ddb_down sample_globals (PStr ''coral bleaching'')
         agent_error 0]
   \<and> items_written (calls (snd
        (lambda_handler_logged sample_lib wide_stdout agent_fails_ddb_down sample_globals
           sample_event start))) = []
   \<and> lambda_handler_logged accent_lib ascii_stdout calm sample_globals event_accent start =
       (Inl (Exn (OtherException ''UnicodeEncodeError'')
          ''codec can't encode character: ordinal not in range(128)''),
        \<lparr>calls = [], reads = 0\<rparr>)"
  by (simp add: logged_agent_fails_ddb_down run_agent_fails_ddb_down run_accent
      failure_write_def sample_table)
     (simp add: agent_fails_ddb_down_def llm_call_def agent_call_def calm_def)

section \<open>When the configuration is read\<close>

lemma sample_load: "load_module sample_environ = sample_globals"
  by (simp add: load_module_def sample_environ_def sample_globals_def)

lemma not_configuration_error:
  "internal_error_response \<noteq> error_response 500 (''Server configuration error: '' @ msg)"
  by (simp add: internal_error_response_def error_response_def json_dumps_def json_string_def
      json_escape_def)

lemma handler_past_check:
  assumes "config_ok g"
  shows "fst (lambda_handler l x g event start) \<noteq>
     Inr (error_response 500 (''Server configuration error: '' @ msg))"
proof (cases "parse_request l event")
  case (Inl e)
  with assms show ?thesis by (simp add: handler_config_ok)
next
  case (Inr v)
  show ?thesis
  proof (cases v)
    case (Inl resp)
    with Inr assms parse_request_status [of l event resp] show ?thesis
      by (auto simp add: handler_config_ok error_response_def)
  next
    case (Inr t)
    with \<open>parse_request l event = Inr v\<close> have parse: "parse_request l event = Inr (Inr t)"
      by simp
    show ?thesis
      using not_configuration_error [of msg]
      by (auto simp add: handler_steps [OF assms parse] Let_def success_response_def
          error_response_def split: option.splits)
  qed
qed

lemma handler_store_names:
  "(PutObject r, a) \<in> set (calls (snd (lambda_handler l x g event start)))
     \<Longrightarrow> Bucket r = the (S3_BUCKET_NAME g)"
  "(PutItem t i, a) \<in> set (calls (snd (lambda_handler l x g event start)))
     \<Longrightarrow> t = the (DYNAMODB_TABLE_NAME g)"
proof -
  have both: "\<forall>c \<in> set (calls (snd (lambda_handler l x g event start))).
      (case fst c of
         PutObject r \<Rightarrow> Bucket r = the (S3_BUCKET_NAME g)
       | PutItem t i \<Rightarrow> t = the (DYNAMODB_TABLE_NAME g)
       | _ \<Rightarrow> True)"
  proof (cases "config_ok g \<and> (\<exists>t. parse_request l event = Inr (Inr t))")
    case False
    then have "snd (lambda_handler l x g event start) = start"
      by (intro handler_no_calls) auto
    then show ?thesis by (simp add: start_def)
  next
    case True
    then obtain t where cfg: "config_ok g" and parse: "parse_request l event = Inr (Inr t)"
      by auto
    show ?thesis
      by (auto simp add: handler_steps [OF cfg parse] Let_def pipeline_def failure_write_def
          llm_call_def agent_call_def report_object_def split: option.splits)
  qed
  show "(PutObject r, a) \<in> set (calls (snd (lambda_handler l x g event start)))
     \<Longrightarrow> Bucket r = the (S3_BUCKET_NAME g)"
    using both by force
  show "(PutItem t i, a) \<in> set (calls (snd (lambda_handler l x g event start)))
     \<Longrightarrow> t = the (DYNAMODB_TABLE_NAME g)"
    using both by force
qed

text \<open>
  C7 (amended). The four configuration values are read from the process environment once
  per process, when the module is imported, and not at each invocation. In every invocation
  the outcome of the configuration check and the bucket and table names of the store writes
  are those of that snapshot, whatever the environment is at invocation time.
\<close>

theorem configuration_snapshot:
  "module_globals ((import_module env)\<lparr>os_environ := env'\<rparr>) = load_module env
   \<and> (\<not> config_ok (load_module env) \<longrightarrow>
        (\<exists>msg. handle l w ((import_module env)\<lparr>os_environ := env'\<rparr>) event =
           (Inr (error_response 500 (''Server configuration error: '' @ msg)), start)))
   \<and> (config_ok (load_module env) \<longrightarrow>
        (\<forall>msg. fst (handle l w ((import_module env)\<lparr>os_environ := env'\<rparr>) event) \<noteq>
           Inr (error_response 500 (''Server configuration error: '' @ msg))))
   \<and> (\<forall>r a. (PutObject r, a) \<in>
          set (calls (snd (handle l w ((import_module env)\<lparr>os_environ := env'\<rparr>) event)))
        \<longrightarrow> Bucket r = the (env ''S3_BUCKET_NAME''))
   \<and> (\<forall>t i a. (PutItem t i, a) \<in>
          set (calls (snd (handle l w ((import_module env)\<lparr>os_environ := env'\<rparr>) event)))
        \<longrightarrow> t = the (env ''DYNAMODB_TABLE_NAME''))"
proof (intro conjI impI allI)
  show "module_globals ((import_module env)\<lparr>os_environ := env'\<rparr>) = load_module env"
    by (simp add: import_module_def)
next
  assume "\<not> config_ok (load_module env)"
  then show "\<exists>msg. handle l w ((import_module env)\<lparr>os_environ := env'\<rparr>) event =
           (Inr (error_response 500 (''Server configuration error: '' @ msg)), start)"
    by (auto simp add: handle_def import_module_def lambda_handler_def config_ok_def)
next
  fix msg
  assume "config_ok (load_module env)"
  then have "fst (lambda_handler l (w env') (load_module env) event start) \<noteq>
           Inr (error_response 500 (''Server configuration error: '' @ msg))"
    by (rule handler_past_check)
  then show "fst (handle l w ((import_module env)\<lparr>os_environ := env'\<rparr>) event) \<noteq>
           Inr (error_response 500 (''Server configuration error: '' @ msg))"
    by (simp add: handle_def import_module_def)
next
  fix r a
  assume "(PutObject r, a) \<in>
          set (calls (snd (handle l w ((import_module env)\<lparr>os_environ := env'\<rparr>) event)))"
  then have "Bucket r = the (S3_BUCKET_NAME (load_module env))"
    by (simp add: handle_def import_module_def handler_store_names(1))
  then show "Bucket r = the (env ''S3_BUCKET_NAME'')"
    by (simp add: load_module_def)
next
  fix t i a
  assume "(PutItem t i, a) \<in>
          set (calls (snd (handle l w ((import_module env)\<lparr>os_environ := env'\<rparr>) event)))"
  then have "t = the (DYNAMODB_TABLE_NAME (load_module env))"
    by (simp add: handle_def import_module_def handler_store_names(2))
  then show "t = the (env ''DYNAMODB_TABLE_NAME'')"
    by (simp add: load_module_def)
qed

lemma sample_world: "keyed_world sample_environ = calm"
  by (simp add: keyed_world_def sample_environ_def not_set_def calm_def fun_eq_iff
      split: call.splits)

lemma run_calm:
  "lambda_handler sample_lib calm sample_globals sample_event start =
      (Inr (success_response sample_globals (uuid4 calm)),
       \<lparr>calls = [(llm_call, None), (NewSearch, None), (agent_call, None),
         (AgentRun (prompt sample_lib (PStr ''coral bleaching'')), None),
         (PutObject (report_object sample_globals (uuid4 calm)
            (agent_report calm (prompt sample_lib (PStr ''coral bleaching'')))), None),
         (PutItem ''research-tasks'' (completed_item (uuid4 calm) (PStr ''coral bleaching'')
            (isoformat (sample_clock 0))), None)],
        reads = 1\<rparr>)"
  by (simp add: handler_config_ok [OF sample_config_ok] sample_parse block_defs sample_table
      calm_def)

theorem configuration_snapshot_witness:
  "module_globals ((import_module Map.empty)\<lparr>os_environ := sample_environ\<rparr>) = load_module Map.empty
   \<and> (\<exists>msg. handle sample_lib keyed_world ((import_module Map.empty)\<lparr>os_environ := sample_environ\<rparr>)
          sample_event =
        (Inr (error_response 500 (''Server configuration error: '' @ msg)), start))
   \<and> fst (handle sample_lib keyed_world ((import_module sample_environ)\<lparr>os_environ := Map.empty\<rparr>)
          sample_event) \<noteq>
        Inr (error_response 500 (''Server configuration error: '' @ ''Missing Google API Key.''))
   \<and> Bucket (report_object sample_globals (uuid4 calm)
          (agent_report calm (prompt sample_lib (PStr ''coral bleaching'')))) =
        the (sample_environ ''S3_BUCKET_NAME'')
   \<and> ''research-tasks'' = the (sample_environ ''DYNAMODB_TABLE_NAME'')"
proof (intro conjI)
  note late = configuration_snapshot [where env = Map.empty and env' = sample_environ
      and l = sample_lib and w = keyed_world and event = sample_event]
  note early = configuration_snapshot [where env = sample_environ and env' = Map.empty
      and l = sample_lib and w = keyed_world and event = sample_event]
  note same = configuration_snapshot [where env = sample_environ and env' = sample_environ
      and l = sample_lib and w = keyed_world and event = sample_event]
  have missing: "\<not> config_ok (load_module Map.empty)"
    by (simp add: config_ok_def load_module_def not_set_def)
  have present: "config_ok (load_module sample_environ)"
    by (simp add: sample_load sample_config_ok)
  have run: "calls (snd (handle sample_lib keyed_world
      ((import_module sample_environ)\<lparr>os_environ := sample_environ\<rparr>) sample_event)) =
       [(llm_call, None), (NewSearch, None), (agent_call, None),
         (AgentRun (prompt sample_lib (PStr ''coral bleaching'')), None),
         (PutObject (report_object sample_globals (uuid4 calm)
            (agent_report calm (prompt sample_lib (PStr ''coral bleaching'')))), None),
         (PutItem ''research-tasks'' (completed_item (uuid4 calm) (PStr ''coral bleaching'')
            (isoformat (sample_clock 0))), None)]"
    by (simp add: handle_def import_module_def sample_load sample_world run_calm)
  show "module_globals ((import_module Map.empty)\<lparr>os_environ := sample_environ\<rparr>) =
      load_module Map.empty"
    by (rule late [THEN conjunct1])
  show "\<exists>msg. handle sample_lib keyed_world ((import_module Map.empty)\<lparr>os_environ := sample_environ\<rparr>)
          sample_event =
        (Inr (error_response 500 (''Server configuration error: '' @ msg)), start)"
    by (rule late [THEN conjunct2, THEN conjunct1, THEN mp, OF missing])
  show "fst (handle sample_lib keyed_world ((import_module sample_environ)\<lparr>os_environ := Map.empty\<rparr>)
          sample_event) \<noteq>
        Inr (error_response 500 (''Server configuration error: '' @ ''Missing Google API Key.''))"
    by (rule early [THEN conjunct2, THEN conjunct2, THEN conjunct1, THEN mp, OF present,
          THEN spec])
  have "(PutObject (report_object sample_globals (uuid4 calm)
            (agent_report calm (prompt sample_lib (PStr ''coral bleaching'')))), None)
      \<in> set (calls (snd (handle sample_lib keyed_world
      ((import_module sample_environ)\<lparr>os_environ := sample_environ\<rparr>) sample_event)))"
    unfolding run by simp
  then show "Bucket (report_object sample_globals (uuid4 calm)
          (agent_report calm (prompt sample_lib (PStr ''coral bleaching'')))) =
        the (sample_environ ''S3_BUCKET_NAME'')"
    using same [THEN conjunct2, THEN conjunct2, THEN conjunct2, THEN conjunct1] by blast
  have "(PutItem ''research-tasks'' (completed_item (uuid4 calm) (PStr ''coral bleaching'')
            (isoformat (sample_clock 0))), None)
      \<in> set (calls (snd (handle sample_lib keyed_world
      ((import_module sample_environ)\<lparr>os_environ := sample_environ\<rparr>) sample_event)))"
    unfolding run by simp
  then show "''research-tasks'' = the (sample_environ ''DYNAMODB_TABLE_NAME'')"
    using same [THEN conjunct2, THEN conjunct2, THEN conjunct2, THEN conjunct2] by blast
qed

text \<open>
  C7 as stated fails: two processes with the same environment at invocation time, all four
  variables set, answer the same request differently, because one of them was imported
  before the variables were set. The libraries see the same keys in both.
\<close>

theorem configuration_snapshot_counterexample:
  "os_environ ((import_module Map.empty)\<lparr>os_environ := sample_environ\<rparr>) =
     os_environ (import_module sample_environ)
   \<and> fst (handle sample_lib keyed_world (import_module sample_environ) sample_event) =
       Inr (success_response sample_globals (uuid4 calm))
   \<and> fst (handle sample_lib keyed_world ((import_module Map.empty)\<lparr>os_environ := sample_environ\<rparr>)
        sample_event) =
       Inr (error_response 500 ''Server configuration error: Missing Google API Key.'')"
proof -
  have ok: "fst (lambda_handler sample_lib calm sample_globals sample_event start) =
      Inr (success_response sample_globals (uuid4 calm))"
    by (simp add: handler_config_ok [OF sample_config_ok] sample_parse block_defs calm_def)
  have missing: "fst (lambda_handler sample_lib calm (load_module Map.empty) sample_event start) =
      Inr (error_response 500 ''Server configuration error: Missing Google API Key.'')"
    by (simp add: lambda_handler_def load_module_def not_set_def)
  show ?thesis
    using ok missing
    by (simp add: handle_def import_module_def sample_load sample_world)
qed

end
